theory Spec2Isabelle
  imports Complex_Main
begin

section \<open>JWST data-analysis notebooks: combining and normalizing NIRISS WFSS spectra\<close>

text \<open>
  The notebook \<^verbatim>\<open>01_Combine_and_normalize_1D_spectra.ipynb\<close> reads the optimally
  extracted 1D spectra of every dither position, resamples them onto the wavelength grid
  of dither 0, combines them by an inverse-variance weighted average, normalizes the
  combined spectrum to the broadband catalog flux through the helper \<^verbatim>\<open>filconv\<close>, and
  writes the result with \<^verbatim>\<open>Spectrum(...).write\<close>.

  Numbers. The notebook computes in \<^verbatim>\<open>float64\<close>. The theory reads its arithmetic
  twice.

  The first reading computes in \<^typ>\<open>real\<close>: rounding, overflow and underflow are not
  represented, so every equation proved in it is an equation of exact arithmetic. Data
  read from files (wavelengths, fluxes, uncertainties, filter curves, catalog fluxes) are
  finite reals. A value that the notebook computes through a division or a square root
  has type \<open>f64 = real option\<close>: \<open>Some x\<close> is the finite value \<open>x\<close>, and \<open>None\<close> marks a
  value downstream of a division by zero or of the square root of a negative number,
  where numpy continues with \<^verbatim>\<open>inf\<close> or \<^verbatim>\<open>nan\<close> and a warning instead of raising. This
  reading does not follow such a value any further: \<open>None\<close> absorbs every operation, and a
  result \<open>None\<close> says only that the notebook's value is outside the finite numbers it
  tracks.

  The second reading computes in IEEE 754 binary64 with rounding to nearest, ties to
  even, with signed zeros, subnormals, infinities and nan: the combination cell and
  \<^verbatim>\<open>filconv\<close> are translated once more, operation by operation, as \<open>flux_combine_at64\<close>
  and \<open>filconv64\<close>. It gives the values that the notebook stores, and shows that the
  equations of exact arithmetic about the weighted average and about \<^verbatim>\<open>fnu\<close> do not
  hold for them.

  Library calls. \<^verbatim>\<open>np.interp\<close> and \<^verbatim>\<open>scipy.integrate.simpson\<close> belong to numpy and
  scipy, not to this repository. Their argument checks are modelled; the interpolant and
  the quadrature rule themselves are parameters of the model (\<open>ip\<close> and \<open>S\<close>).
\<close>

subsection \<open>Errors and float values\<close>

datatype error = ValueError | IndexError | FileNotFoundError | KeyError | NameError

type_synonym f64 = "real option"

fun fmul :: "f64 \<Rightarrow> f64 \<Rightarrow> f64" where
  "fmul (Some a) (Some b) = Some (a * b)"
| "fmul _ _ = None"

fun fdiv :: "f64 \<Rightarrow> f64 \<Rightarrow> f64" where
  "fdiv (Some a) (Some b) = (if b = 0 then None else Some (a / b))"
| "fdiv _ _ = None"

fun fsqrt :: "f64 \<Rightarrow> f64" where
  "fsqrt (Some a) = (if a < 0 then None else Some (sqrt a))"
| "fsqrt None = None"

text \<open>An exception ends the computation: the rest runs on a result only.\<close>

fun bind_err :: "'e + 'a \<Rightarrow> ('a \<Rightarrow> 'e + 'b) \<Rightarrow> 'e + 'b" where
  "bind_err (Inl err) f = Inl err"
| "bind_err (Inr v) f = f v"

subsection \<open>numpy and scipy primitives\<close>

text \<open>\<^verbatim>\<open>np.max\<close> and \<^verbatim>\<open>np.min\<close> raise ValueError on an empty array.\<close>

definition np_max :: "real list \<Rightarrow> error + real" where
  "np_max xs = (case xs of [] \<Rightarrow> Inl ValueError | x # r \<Rightarrow> Inr (fold max r x))"

definition np_min :: "real list \<Rightarrow> error + real" where
  "np_min xs = (case xs of [] \<Rightarrow> Inl ValueError | x # r \<Rightarrow> Inr (fold min r x))"

text \<open>\<^verbatim>\<open>a[con]\<close> with a boolean array \<^verbatim>\<open>con\<close>: the elements of \<^verbatim>\<open>a\<close> where \<^verbatim>\<open>con\<close> is
  true, in order; IndexError when the two lengths differ.\<close>

definition bool_index :: "'a list \<Rightarrow> bool list \<Rightarrow> error + 'a list" where
  "bool_index a con =
     (if length con \<noteq> length a then Inl IndexError
      else Inr (map fst (filter snd (zip a con))))"

text \<open>An elementwise binary operation on two 1-D arrays, with numpy's broadcasting: a
  length-1 array is stretched to the other's length, any other length mismatch is a
  ValueError.\<close>

definition np_broadcast2 :: "('a \<Rightarrow> 'b \<Rightarrow> 'c) \<Rightarrow> 'a list \<Rightarrow> 'b list \<Rightarrow> error + 'c list" where
  "np_broadcast2 f a b =
     (if length a = length b then Inr (map2 f a b)
      else if length a = 1 then Inr (map (f (hd a)) b)
      else if length b = 1 then Inr (map (\<lambda>x. f x (hd b)) a)
      else Inl ValueError)"

text \<open>\<^verbatim>\<open>np.interp(x, xp, fp)\<close>: one interpolated value per element of \<^verbatim>\<open>x\<close>, each
  depending on that element and on the sample points only. ValueError when the sample
  arrays are empty or of different lengths. The interpolant \<open>ip\<close> is numpy's.\<close>

type_synonym interp1 = "real \<Rightarrow> real list \<Rightarrow> real list \<Rightarrow> real"

definition np_interp :: "interp1 \<Rightarrow> real list \<Rightarrow> real list \<Rightarrow> real list \<Rightarrow> error + real list" where
  "np_interp ip x xp fp =
     (if xp = [] \<or> length fp \<noteq> length xp then Inl ValueError
      else Inr (map (\<lambda>v. ip v xp fp) x))"

text \<open>\<^verbatim>\<open>simpson(y, x=x)\<close>: ValueError when \<^verbatim>\<open>x\<close> and \<^verbatim>\<open>y\<close> differ in length; the
  integral of finite samples by scipy's rule \<open>S\<close>; not finite as soon as one sample is
  not.\<close>

type_synonym quadrature = "real list \<Rightarrow> real list \<Rightarrow> real"

definition simpson :: "quadrature \<Rightarrow> f64 list \<Rightarrow> real list \<Rightarrow> error + f64" where
  "simpson S y x =
     (if length x \<noteq> length y then Inl ValueError
      else Inr (case those y of None \<Rightarrow> None | Some ys \<Rightarrow> Some (S ys x)))"

subsection \<open>The helper \<^verbatim>\<open>filconv\<close>\<close>

text \<open>
\<^verbatim>\<open>
def filconv(lfil, ffil, l0, f0, DIR='', c=3e18):
    fhalf = np.max(ffil)/2.0
    con = (ffil > fhalf)
    lfwhml = np.min(lfil[con])
    lfwhmr = np.max(lfil[con])
    lcen = (lfwhmr + lfwhml)/2.
    lamS, spec = l0, f0
    lamF, filt = lfil, ffil
    filt_int = np.interp(lamS, lamF, filt)
    if len(lamS) > 0:
        I1 = simpson(spec / lamS**2 * c * filt_int * lamS, x=lamS)
        I2 = simpson(filt_int/lamS, x=lamS)
        fnu = I1/I2/c
    else:
        I1 = 0
        I2 = 0
        fnu = 0
    return lcen, fnu
\<close>
\<close>

definition filconv ::
  "interp1 \<Rightarrow> quadrature \<Rightarrow> real list \<Rightarrow> real list \<Rightarrow> real list \<Rightarrow> f64 list \<Rightarrow> string \<Rightarrow> real
     \<Rightarrow> error + (real \<times> f64)" where
  "filconv ip S lfil ffil l0 f0 DIR c =
     bind_err (np_max ffil) (\<lambda>fmax.
     let fhalf = fmax / 2;
         con = map (\<lambda>f. f > fhalf) ffil in
     bind_err (bool_index lfil con) (\<lambda>sel.
     bind_err (np_min sel) (\<lambda>lfwhml.
     bind_err (np_max sel) (\<lambda>lfwhmr.
     let lcen = (lfwhmr + lfwhml) / 2;
         lamS = l0; spec = f0;
         lamF = lfil; filt = ffil in
     bind_err (np_interp ip lamS lamF filt) (\<lambda>filt_int.
     if length lamS > 0 then
       bind_err (np_broadcast2 fdiv spec (map (\<lambda>l. Some (l ^ 2)) lamS)) (\<lambda>t1.
       bind_err (np_broadcast2 fmul (map (\<lambda>t. fmul t (Some c)) t1) (map Some filt_int)) (\<lambda>t2.
       bind_err (np_broadcast2 fmul t2 (map Some lamS)) (\<lambda>t3.
       bind_err (simpson S t3 lamS) (\<lambda>I1.
       bind_err (np_broadcast2 fdiv (map Some filt_int) (map Some lamS)) (\<lambda>t4.
       bind_err (simpson S t4 lamS) (\<lambda>I2.
       Inr (lcen, fdiv (fdiv I1 I2) (Some c))))))))
     else Inr (lcen, Some 0))))))"

text \<open>The defaults of the two keyword arguments.\<close>

definition DIR_default :: string where
  "DIR_default = ''''"

definition c_default :: real where
  "c_default = 3 * 10 ^ 18"

subsection \<open>Files and notebook constants\<close>

text \<open>A FITS table written by the extraction notebook has the columns
  \<^verbatim>\<open>wavelength\<close>, \<^verbatim>\<open>flux\<close> and \<^verbatim>\<open>uncertainty\<close>; a table is its list of rows, so the
  three columns have one length. A filter file has the columns \<^verbatim>\<open>Wavelength\<close> and
  \<^verbatim>\<open>FilterTrans\<close>. A file system maps a path to the table stored there.\<close>

type_synonym fits_table = "(real \<times> real \<times> real) list"

definition col_wavelength :: "fits_table \<Rightarrow> real list" where
  "col_wavelength fd = map fst fd"

definition col_flux :: "fits_table \<Rightarrow> real list" where
  "col_flux fd = map (\<lambda>r. fst (snd r)) fd"

definition col_uncertainty :: "fits_table \<Rightarrow> real list" where
  "col_uncertainty fd = map (\<lambda>r. snd (snd r)) fd"

definition fits_open :: "(string \<Rightarrow> fits_table option) \<Rightarrow> string \<Rightarrow> error + fits_table" where
  "fits_open fs file_1d = (case fs file_1d of None \<Rightarrow> Inl FileNotFoundError | Some fd \<Rightarrow> Inr fd)"

definition ascii_read :: "(string \<Rightarrow> (real \<times> real) list option) \<Rightarrow> string \<Rightarrow> error + (real \<times> real) list" where
  "ascii_read ffs file = (case ffs file of None \<Rightarrow> Inl FileNotFoundError | Some t \<Rightarrow> Inr t)"

text \<open>The decimal digits of a natural number, as an f-string prints an integer.\<close>

fun str_nat :: "nat \<Rightarrow> string" where
  "str_nat n =
     (if n < 10 then [char_of (48 + n)]
      else str_nat (n div 10) @ [char_of (48 + n mod 10)])"

declare str_nat.simps [simp del]

text \<open>\<^verbatim>\<open>str.upper\<close> on ASCII letters.\<close>

definition upper :: "string \<Rightarrow> string" where
  "upper s = map (\<lambda>ch. let k = (of_char ch :: nat) in
                         if 97 \<le> k \<and> k \<le> 122 then char_of (k - 32) else ch) s"

definition DIR_OUT :: string where
  "DIR_OUT = ''./output/''"

definition grism :: string where
  "grism = ''G150C''"

definition source_id :: string where
  "source_id = ''00004''"

text \<open>\<^verbatim>\<open>int(id)\<close> for \<^verbatim>\<open>id = '00004'\<close>.\<close>

definition int_id :: int where
  "int_id = 4"

definition DIR_FIL :: string where
  "DIR_FIL = ''./niriss_filter_tarball/DATA/''"





definition dither_path :: "string \<Rightarrow> nat \<Rightarrow> string" where
  "dither_path filt dither =
     DIR_OUT @ ''l3_nis_'' @ filt @ ''_'' @ grism @ ''_s'' @ source_id
       @ ''_ndither'' @ str_nat dither @ ''_1d_opt.fits''"


definition filter_path :: "string \<Rightarrow> string" where
  "filter_path filt = DIR_FIL @ ''/NIRISS_'' @ upper filt @ ''.txt''"

subsection \<open>Reading the dithers onto the grid of dither 0\<close>

text \<open>
\<^verbatim>\<open>
for dither in dithers:
    file_1d = f'{DIR_OUT}l3_nis_{filt}_{grism}_s{id}_ndither{dither}_1d_opt.fits'
    fd = fits.open(file_1d)[1].data
    if dither == 0:
        wave = fd['wavelength']
        flux = np.zeros((ndither, len(wave)), 'float')
        flux_err = np.zeros((ndither, len(wave)), 'float')
        flux[dither, :] = fd['flux']
        flux_err[dither, :] = fd['uncertainty']
    else:
        wave_tmp = fd['wavelength']
        flux_tmp = fd['flux']
        flux_err_tmp = fd['uncertainty']
        flux[dither, :] = np.interp(wave, wave_tmp, flux_tmp)
        flux_err[dither, :] = np.sqrt(np.interp(wave, wave_tmp, flux_err_tmp[:]**2))
\<close>
  The variables \<^verbatim>\<open>wave\<close>, \<^verbatim>\<open>flux\<close> and \<^verbatim>\<open>flux_err\<close> are the state of the loop; they
  are unbound (\<open>None\<close>) until the iteration of dither 0 binds them.
\<close>

text \<open>\<^verbatim>\<open>a[d, :] = v\<close> on an array with \<open>ncols\<close> columns.\<close>

definition set_row :: "'a list list \<Rightarrow> nat \<Rightarrow> nat \<Rightarrow> 'a list \<Rightarrow> error + 'a list list" where
  "set_row a ncols d v =
     (if length a \<le> d then Inl IndexError
      else if length v = ncols then Inr (a[d := v])
      else if length v = 1 then Inr (a[d := replicate ncols (hd v)])
      else Inl ValueError)"

type_synonym dither_state = "real list \<times> real list list \<times> f64 list list"

definition load_step ::
  "interp1 \<Rightarrow> (string \<Rightarrow> fits_table option) \<Rightarrow> string \<Rightarrow> nat \<Rightarrow> nat \<Rightarrow> dither_state option
     \<Rightarrow> error + dither_state option" where
  "load_step ip fs filt ndither dither st =
     bind_err (fits_open fs (dither_path filt dither)) (\<lambda>fd.
     if dither = 0 then
       (let wave = col_wavelength fd;
            flux = replicate ndither (replicate (length wave) 0);
            flux_err = replicate ndither (replicate (length wave) (Some 0)) in
        bind_err (set_row flux (length wave) dither (col_flux fd)) (\<lambda>flux'.
        bind_err (set_row flux_err (length wave) dither (map Some (col_uncertainty fd))) (\<lambda>flux_err'.
        Inr (Some (wave, flux', flux_err')))))
     else
       bind_err (case st of None \<Rightarrow> Inl NameError | Some s \<Rightarrow> Inr s) (\<lambda>(wave, flux, flux_err).
       let wave_tmp = col_wavelength fd;
           flux_tmp = col_flux fd;
           flux_err_tmp = col_uncertainty fd in
       bind_err (np_interp ip wave wave_tmp flux_tmp) (\<lambda>r1.
       bind_err (set_row flux (length wave) dither r1) (\<lambda>flux'.
       bind_err (np_interp ip wave wave_tmp (map (\<lambda>e. e ^ 2) flux_err_tmp)) (\<lambda>r2.
       bind_err (set_row flux_err (length wave) dither (map (\<lambda>v. fsqrt (Some v)) r2)) (\<lambda>flux_err'.
       Inr (Some (wave, flux', flux_err'))))))))"

fun load_loop ::
  "interp1 \<Rightarrow> (string \<Rightarrow> fits_table option) \<Rightarrow> string \<Rightarrow> nat \<Rightarrow> nat list \<Rightarrow> dither_state option
     \<Rightarrow> error + dither_state option" where
  "load_loop ip fs filt ndither [] st = Inr st"
| "load_loop ip fs filt ndither (dither # ds) st =
     (case load_step ip fs filt ndither dither st of
        Inl err \<Rightarrow> Inl err
      | Inr st' \<Rightarrow> load_loop ip fs filt ndither ds st')"

text \<open>\<^verbatim>\<open>dithers = np.arange(0, ndither, 1)\<close>; the cells after the loop read \<^verbatim>\<open>wave\<close>,
  which is unbound when the loop never ran.\<close>

definition load_dithers ::
  "interp1 \<Rightarrow> (string \<Rightarrow> fits_table option) \<Rightarrow> string \<Rightarrow> nat \<Rightarrow> error + dither_state" where
  "load_dithers ip fs filt ndither =
     bind_err (load_loop ip fs filt ndither [0..<ndither] None) (\<lambda>st.
     case st of None \<Rightarrow> Inl NameError | Some s \<Rightarrow> Inr s)"

subsection \<open>The weighted average of the dithers\<close>

text \<open>
\<^verbatim>\<open>
flux_combine = np.zeros(len(wave), 'float')
flux_err_combine = np.zeros(len(wave), 'float')
for ii in range(len(wave)):
    flux_combine[ii] = np.sum(flux[:, ii] * 1 / flux_err[:, ii]**2) / np.sum(1 / flux_err[:, ii]**2)
    flux_err_combine[ii] = np.sqrt(np.sum(flux_err[:, ii]**2)) / len(flux_err[:, ii])
\<close>
\<close>

definition column :: "'a list list \<Rightarrow> nat \<Rightarrow> 'a list" where
  "column a ii = map (\<lambda>row. row ! ii) a"

definition np_sum :: "f64 list \<Rightarrow> f64" where
  "np_sum ys = map_option sum_list (those ys)"

definition flux_combine_at :: "real list list \<Rightarrow> f64 list list \<Rightarrow> nat \<Rightarrow> f64" where
  "flux_combine_at flux flux_err ii =
     fdiv (np_sum (map2 (\<lambda>f e. fdiv (Some (f * 1)) (fmul e e)) (column flux ii) (column flux_err ii)))
          (np_sum (map (\<lambda>e. fdiv (Some 1) (fmul e e)) (column flux_err ii)))"

definition flux_err_combine_at :: "f64 list list \<Rightarrow> nat \<Rightarrow> f64" where
  "flux_err_combine_at flux_err ii =
     fdiv (fsqrt (np_sum (map (\<lambda>e. fmul e e) (column flux_err ii))))
          (Some (real (length (column flux_err ii))))"

definition combine :: "real list \<Rightarrow> real list list \<Rightarrow> f64 list list \<Rightarrow> f64 list \<times> f64 list" where
  "combine wave flux flux_err =
     fold (\<lambda>ii (flux_combine, flux_err_combine).
             (flux_combine[ii := flux_combine_at flux flux_err ii],
              flux_err_combine[ii := flux_err_combine_at flux_err ii]))
          [0..<length wave]
          (replicate (length wave) (Some 0), replicate (length wave) (Some 0))"

subsection \<open>Normalization to the broadband catalog and the written spectrum\<close>

text \<open>The broadband catalog \<^verbatim>\<open>fd_cat\<close>: the \<^verbatim>\<open>id\<close> column and the named flux columns,
  each as long as the \<^verbatim>\<open>id\<close> column.\<close>

type_synonym catalog = "int list \<times> (string \<Rightarrow> real list option)"

definition cat_column :: "catalog \<Rightarrow> string \<Rightarrow> error + real list" where
  "cat_column fd_cat name = (case snd fd_cat name of None \<Rightarrow> Inl KeyError | Some col \<Rightarrow> Inr col)"

text \<open>\<^verbatim>\<open>np.where(id_cat[:] == v)\<close>: the indices of the matching rows.\<close>

definition np_where_eq :: "int list \<Rightarrow> int \<Rightarrow> nat list" where
  "np_where_eq id_cat v = filter (\<lambda>i. id_cat ! i = v) [0..<length id_cat]"

text \<open>\<^verbatim>\<open>col[iix]\<close> with an index array.\<close>

definition take_indices :: "'a list \<Rightarrow> nat list \<Rightarrow> error + 'a list" where
  "take_indices col iix =
     (if list_ex (\<lambda>i. length col \<le> i) iix then Inl IndexError
      else Inr (map (\<lambda>i. col ! i) iix))"

datatype uncertainty = StdDevUncertainty "f64 list"

datatype spectrum = Spectrum (spectral_axis: "real list") (flux_arg: "f64 list") (uncertainty_arg: uncertainty)

text \<open>One call \<^verbatim>\<open>obs.write(file_1d, format=..., overwrite=...)\<close>. The checks that the
  specutils constructor and writer make on their arguments are the library's and are not
  modelled: a call is recorded with the arguments the notebook passes.\<close>

datatype write_call = Write (w_obs: spectrum) (w_path: string) (w_format: string) (w_overwrite: bool)

text \<open>
  The cells from the combination to the normalization factor, as they appear once for
  \<^verbatim>\<open>f200w\<close> and once in the body of the loop over the filters:
\<^verbatim>\<open>
    filt_data = ascii.read(f'{DIR_FIL}/NIRISS_{filt.upper()}.txt')
    wave_filt = filt_data['Wavelength']
    flux_filt = filt_data['FilterTrans']
    con = (wave > mask_lw[ff]) & (wave < mask_uw[ff])
    lcen, fnu = filconv(wave_filt, flux_filt, wave[con], flux_combine[con])
    iix = np.where(id_cat[:] == int(id))
    Cnorm = fd_cat[f'F{eazy_filts[ff]}'][iix] / fnu
\<close>
  The result is the reference grid, the combined flux and uncertainty, and \<^verbatim>\<open>Cnorm\<close>.
\<close>

definition products ::
  "interp1 \<Rightarrow> quadrature \<Rightarrow> (string \<Rightarrow> fits_table option) \<Rightarrow> (string \<Rightarrow> (real \<times> real) list option)
     \<Rightarrow> catalog \<Rightarrow> nat \<Rightarrow> string \<Rightarrow> nat \<Rightarrow> real \<Rightarrow> real \<Rightarrow> string
     \<Rightarrow> error + (real list \<times> f64 list \<times> f64 list \<times> f64 list)" where
  "products ip S fs ffs fd_cat ndither filt eazy_filt lw uw DIR =
     bind_err (load_dithers ip fs filt ndither) (\<lambda>(wave, flux, flux_err).
     let (flux_combine, flux_err_combine) = combine wave flux flux_err in
     bind_err (ascii_read ffs (filter_path filt)) (\<lambda>filt_data.
     let wave_filt = map fst filt_data;
         flux_filt = map snd filt_data;
         con = map (\<lambda>w. w > lw \<and> w < uw) wave in
     bind_err (bool_index wave con) (\<lambda>wave_con.
     bind_err (bool_index flux_combine con) (\<lambda>flux_con.
     bind_err (filconv ip S wave_filt flux_filt wave_con flux_con DIR c_default) (\<lambda>(lcen, fnu).
     let iix = np_where_eq (fst fd_cat) int_id in
     bind_err (cat_column fd_cat (''F'' @ str_nat eazy_filt)) (\<lambda>col.
     bind_err (take_indices col iix) (\<lambda>picked.
     let Cnorm = map (\<lambda>v. fdiv (Some v) fnu) picked in
     Inr (wave, flux_combine, flux_err_combine, Cnorm))))))))"

text \<open>
\<^verbatim>\<open>
    obs = Spectrum(spectral_axis=wave*u.um,
                   flux=flux_combine * Cnorm * u.dimensionless_unscaled,
                   uncertainty=StdDevUncertainty(flux_err_combine * Cnorm), unit='')
    obs.write(file_1d, format='tabular-fits', overwrite=True)
\<close>
\<close>

definition write_normalized ::
  "real list \<Rightarrow> f64 list \<Rightarrow> f64 list \<Rightarrow> f64 list \<Rightarrow> string \<Rightarrow> error + write_call" where
  "write_normalized wave flux_combine flux_err_combine Cnorm file_1d =
     bind_err (np_broadcast2 fmul flux_combine Cnorm) (\<lambda>nflux.
     bind_err (np_broadcast2 fmul flux_err_combine Cnorm) (\<lambda>nerr.
     Inr (Write (Spectrum wave nflux (StdDevUncertainty nerr)) file_1d ''tabular-fits'' True)))"

text \<open>The first pass, for \<^verbatim>\<open>filt = 'f200w'\<close>, \<^verbatim>\<open>eazy_filt = 311\<close>, the mask
  \<^verbatim>\<open>(wave > 1.75) & (wave < 2.25)\<close> and \<^verbatim>\<open>DIR='./'\<close>. Its \<^verbatim>\<open>file_1d\<close> is built with the
  value that the loop over the dithers left in \<^verbatim>\<open>dither\<close>, the last dither.\<close>

definition first_pass ::
  "interp1 \<Rightarrow> quadrature \<Rightarrow> (string \<Rightarrow> fits_table option) \<Rightarrow> (string \<Rightarrow> (real \<times> real) list option)
     \<Rightarrow> catalog \<Rightarrow> nat \<Rightarrow> error + write_call" where
  "first_pass ip S fs ffs fd_cat ndither =
     bind_err (products ip S fs ffs fd_cat ndither ''f200w'' 311 1.75 2.25 ''./'')
       (\<lambda>(wave, flux_combine, flux_err_combine, Cnorm).
     write_normalized wave flux_combine flux_err_combine Cnorm
       (dither_path ''f200w'' (ndither - 1)))"




subsection \<open>Notions used to state the properties\<close>

text \<open>A rectangular array with \<open>n\<close> rows and \<open>m\<close> columns.\<close>

definition has_shape :: "'a list list \<Rightarrow> nat \<Rightarrow> nat \<Rightarrow> bool" where
  "has_shape a n m \<longleftrightarrow> length a = n \<and> list_all (\<lambda>row. length row = m) a"

text \<open>The first five lines of \<^verbatim>\<open>filconv\<close>: the centre of the filter's
  full width at half maximum.\<close>

definition fwhm_center :: "real list \<Rightarrow> real list \<Rightarrow> error + real" where
  "fwhm_center lfil ffil =
     bind_err (np_max ffil) (\<lambda>fmax.
     bind_err (bool_index lfil (map (\<lambda>f. f > fmax / 2) ffil)) (\<lambda>sel.
     bind_err (np_min sel) (\<lambda>lfwhml.
     bind_err (np_max sel) (\<lambda>lfwhmr.
     Inr ((lfwhmr + lfwhml) / 2)))))"

text \<open>The array \<open>a\<close> stretched to length \<open>n\<close> by broadcasting.\<close>

definition broadcast_to :: "nat \<Rightarrow> 'a list \<Rightarrow> 'a list" where
  "broadcast_to n a = (if length a = n then a else replicate n (hd a))"

text \<open>One sample of the integrand of \<^verbatim>\<open>I1\<close>, \<^verbatim>\<open>spec / lamS**2 * c * filt_int * lamS\<close>,
  and one of the integrand of \<^verbatim>\<open>I2\<close>, \<^verbatim>\<open>filt_int/lamS\<close>.\<close>

definition integrand1 :: "real \<Rightarrow> f64 \<times> real \<times> real \<Rightarrow> f64" where
  "integrand1 c = (\<lambda>(s, l, fi). fmul (fmul (fmul (fdiv s (Some (l ^ 2))) (Some c)) (Some fi)) (Some l))"

definition integrand2 :: "real \<times> real \<Rightarrow> f64" where
  "integrand2 = (\<lambda>(l, fi). fdiv (Some fi) (Some l))"

definition quad :: "quadrature \<Rightarrow> f64 list \<Rightarrow> real list \<Rightarrow> f64" where
  "quad S y x = (case those y of None \<Rightarrow> None | Some ys \<Rightarrow> Some (S ys x))"

text \<open>The value \<^verbatim>\<open>I1/I2/c\<close> for a spectrum that broadcasts against its wavelengths.\<close>

definition fnu_of ::
  "interp1 \<Rightarrow> quadrature \<Rightarrow> real list \<Rightarrow> real list \<Rightarrow> real list \<Rightarrow> f64 list \<Rightarrow> real \<Rightarrow> f64" where
  "fnu_of ip S lfil ffil l0 f0 c =
     (let filt_int = map (\<lambda>v. ip v lfil ffil) l0;
          I1 = quad S (map (integrand1 c) (zip (broadcast_to (length l0) f0) (zip l0 filt_int))) l0;
          I2 = quad S (map integrand2 (zip l0 filt_int)) l0
      in fdiv (fdiv I1 I2) (Some c))"


text \<open>A quadrature rule is homogeneous when scaling the samples scales the integral, as
  every rule that is a weighted sum of the samples is.\<close>

definition homogeneous :: "quadrature \<Rightarrow> bool" where
  "homogeneous S \<longleftrightarrow> (\<forall>k ys xs. S (map ((*) k) ys) xs = k * S ys xs)"

text \<open>Row \<open>d\<close> of \<^verbatim>\<open>flux\<close> and of \<^verbatim>\<open>flux_err\<close> after the loop over the dithers, when
  \<open>tab d\<close> is the table of dither \<open>d\<close>.\<close>

definition flux_row :: "interp1 \<Rightarrow> (nat \<Rightarrow> fits_table) \<Rightarrow> nat \<Rightarrow> real list" where
  "flux_row ip tab d =
     (if d = 0 then col_flux (tab 0)
      else map (\<lambda>v. ip v (col_wavelength (tab d)) (col_flux (tab d))) (col_wavelength (tab 0)))"

definition flux_err_row :: "interp1 \<Rightarrow> (nat \<Rightarrow> fits_table) \<Rightarrow> nat \<Rightarrow> f64 list" where
  "flux_err_row ip tab d =
     (if d = 0 then map Some (col_uncertainty (tab 0))
      else map (\<lambda>v. fsqrt (Some (ip v (col_wavelength (tab d))
                                     (map (\<lambda>e. e ^ 2) (col_uncertainty (tab d))))))
               (col_wavelength (tab 0)))"

subsection \<open>An interpolant and a quadrature rule for worked examples\<close>

text \<open>Piecewise-linear interpolation over increasing sample points, constant outside
  them, and the trapezoidal rule. They stand in for numpy's interpolant and scipy's rule
  where a property is evaluated on concrete data.\<close>

fun lin_interp :: interp1 where
  "lin_interp v (x0 # x1 # xp) (f0 # f1 # fp) =
     (if v \<le> x0 then f0
      else if v < x1 then f0 + (v - x0) * (f1 - f0) / (x1 - x0)
      else lin_interp v (x1 # xp) (f1 # fp))"
| "lin_interp v [x0] [f0] = f0"
| "lin_interp v _ _ = 0"

fun trapezoid :: quadrature where
  "trapezoid (y0 # y1 # ys) (x0 # x1 # xs) =
     (x1 - x0) * (y0 + y1) / 2 + trapezoid (y1 # ys) (x1 # xs)"
| "trapezoid _ _ = 0"




section \<open>The tables of contents\<close>

text \<open>The two YAML files that the documentation generator reads. A YAML value is a
  string, a boolean, a sequence, or a mapping with its keys in the order of the file.\<close>

datatype yaml = YStr string | YBool bool | YSeq "yaml list" | YMap "(string \<times> yaml) list"

text \<open>The file \<^verbatim>\<open>_toc.yml\<close>, comments left out.\<close>

definition toc_yml :: yaml where
  "toc_yml = YMap [
    (''format'', YStr ''jb-book''),
    (''root'', YStr ''intro''),
    (''parts'', YSeq [
      YMap [(''caption'', YStr ''Cross-Instrument''),
        (''chapters'', YSeq [
          YMap [(''file'', YStr ''notebooks/asdf_example/asdf_example.ipynb''), (''title'', YStr ''ASDF Example'')],
          YMap [(''file'', YStr ''notebooks/background_estimation_imaging/Imaging Sky Background Estimation.ipynb''), (''title'', YStr ''Complex 2D Background'')],
          YMap [(''file'', YStr ''notebooks/composite_model_fitting/specfit_demo_3.ipynb''), (''title'', YStr ''Composite Model Spectral Fitting'')],
          YMap [(''file'', YStr ''notebooks/NIRSpec_MAST_Query/NIRSpec_MAST_Query.ipynb''), (''title'', YStr ''MAST Query'')],
          YMap [(''file'', YStr ''notebooks/specviz_notebookGUI_interaction/specviz_notebook_gui_interaction_redshift.ipynb''), (''title'', YStr ''Specviz Simple Demo'')]])],
      YMap [(''caption'', YStr ''MIRI''),
        (''chapters'', YSeq [
          YMap [(''file'', YStr ''notebooks/MRS_Mstar_analysis/JWST_Mstar_dataAnalysis_runpipeline.ipynb''), (''title'', YStr ''MRS Pipeline'')],
          YMap [(''file'', YStr ''notebooks/MRS_Mstar_analysis/JWST_Mstar_dataAnalysis_analysis.ipynb''), (''title'', YStr ''Data Analysis'')],
          YMap [(''file'', YStr ''notebooks/MIRI_IFU_YSOs_in_the_LMC/isha_nayak_ysos_in_the_lmc.ipynb''), (''title'', YStr ''IFU of YSOs in LMC'')],
          YMap [(''file'', YStr ''notebooks/MIRI_LRS_spectral_extraction/miri_lrs_spectral_extraction.ipynb''), (''title'', YStr ''LRS Extraction'')]])],
      YMap [(''caption'', YStr ''NIRCam''),
        (''chapters'', YSeq [
          YMap [(''file'', YStr ''notebooks/aperture_photometry/NIRCam_Aperture_Photometry_Example.ipynb''), (''title'', YStr ''Point Source Aperture Photometry'')],
          YMap [(''file'', YStr ''notebooks/NIRCam_photometry/NIRCam multiband photometry.ipynb''), (''title'', YStr ''Extended Aperture Photometry'')],
          YMap [(''file'', YStr ''notebooks/psf_photometry/NIRCam_PSF_Photometry_Example.ipynb''), (''title'', YStr ''PSF Photometry'')],
          YMap [(''file'', YStr ''notebooks/NIRCam_PSF-matched_photometry/NIRCam_PSF_matched_multiband_photometry.ipynb''), (''title'', YStr ''Cross-Filter PSF Matching'')],
          YMap [(''file'', YStr ''https://github.com/spacetelescope/jdat_notebooks/tree/main/notebooks/preimaging''), (''title'', YStr ''Preimaging - MIRAGE'')],
          YMap [(''file'', YStr ''notebooks/preimaging/preimaging_02_calwebb.ipynb''), (''title'', YStr ''Preimaging - Calwebb'')],
          YMap [(''file'', YStr ''notebooks/preimaging/preimaging_03_association.ipynb''), (''title'', YStr ''Preimaging - Association'')]])],
      YMap [(''caption'', YStr ''NIRISS''),
        (''chapters'', YSeq [
          YMap [(''file'', YStr ''notebooks/NIRISS_WFSS_postpipeline/00. Optimal extraction.ipynb''), (''title'', YStr ''WFSS Spectra - Optimal Extraction'')],
          YMap [(''file'', YStr ''notebooks/NIRISS_WFSS_postpipeline/01. Combine and normalize 1D spectra.ipynb''), (''title'', YStr ''WFSS Spectra - Combine and Normalize 1D Spectra'')],
          YMap [(''file'', YStr ''notebooks/NIRISS_WFSS_postpipeline/02. Cross correlation template.ipynb''), (''title'', YStr ''WFSS Spectra - Cross-Correlation Template'')],
          YMap [(''file'', YStr ''notebooks/NIRISS_WFSS_postpipeline/03. Spatially resolved emission line map.ipynb''), (''title'', YStr ''WFSS Spectra - Emission Line Map'')],
          YMap [(''file'', YStr ''notebooks/niriss_ami_binary/1_niriss_ami_binary.ipynb''), (''title'', YStr ''AMI Binary Star 1'')],
          YMap [(''file'', YStr ''notebooks/niriss_ami_binary/2_niriss_ami_binary.ipynb''), (''title'', YStr ''AMI Binary Star Notebook 2'')],
          YMap [(''file'', YStr ''notebooks/soss-transit-spectroscopy/HAT-P-1b-PART3-data-analysis.ipynb''), (''title'', YStr ''SOSS Transient Spectroscopy'')]])],
      YMap [(''caption'', YStr ''NIRSpec''),
        (''chapters'', YSeq [
          YMap [(''file'', YStr ''notebooks/IFU_cube_continuum_fit/NGC4151_FeII_ContinuumFit.ipynb''), (''title'', YStr ''IFU Cube Fitting'')],
          YMap [(''file'', YStr ''notebooks/ifu_optimal/ifu_optimal.ipynb''), (''title'', YStr ''MOS Optimal Extraction'')],
          YMap [(''file'', YStr ''notebooks/mos-spectroscopy/MOSspec_sv06_revised.ipynb''), (''title'', YStr ''MOS Spectroscopy of Extragalactic Field'')],
          YMap [(''file'', YStr ''notebooks/transit_spectroscopy_notebook/Exoplanet_Transmission_Spectra_JWST.ipynb''), (''title'', YStr ''Transient Spectroscopy'')]])]])]"

text \<open>The second table of contents, \<^verbatim>\<open>toc.yml\<close>, comments left out.\<close>

definition toc_yml_2 :: yaml where
  "toc_yml_2 = YMap [
    (''format'', YStr ''jb-book''),
    (''root'', YStr ''intro''),
    (''defaults'', YMap [(''titlesonly'', YBool True)]),
    (''parts'', YSeq [
      YMap [(''caption'', YStr ''General''),
        (''chapters'', YSeq [
          YMap [(''file'', YStr ''index.rst''), (''title'', YStr ''Home'')],
          YMap [(''file'', YStr ''install.rst''), (''title'', YStr ''Installation'')],
          YMap [(''file'', YStr ''docs/notebook_development_workflow.rst''), (''title'', YStr ''Notebook Development Workflow'')]])],
      YMap [(''caption'', YStr ''Development''),
        (''chapters'', YSeq [
          YMap [(''file'', YStr ''docs/submitting_notebooks.rst''), (''title'', YStr ''Submitting Notebooks'')],
          YMap [(''file'', YStr ''docs/requirements.rst''), (''title'', YStr ''Requirements file'')],
          YMap [(''file'', YStr ''docs/notebooks.rst''), (''title'', YStr ''Jupyter Notebooks'')],
          YMap [(''file'', YStr ''docs/data_files.rst''), (''title'', YStr ''Data Files'')]])],
      YMap [(''caption'', YStr ''GitHub Guidelines''),
        (''chapters'', YSeq [
          YMap [(''file'', YStr ''docs/github_setup.rst''), (''title'', YStr ''GitHub Setup'')],
          YMap [(''file'', YStr ''docs/github_workflow.rst''), (''title'', YStr ''GitHub Workflow'')],
          YMap [(''file'', YStr ''docs/github_pr.rst''), (''title'', YStr ''GitHub PR'')]])],
      YMap [(''caption'', YStr ''Cross-Instrument''),
        (''chapters'', YSeq [
          YMap [(''file'', YStr ''notebooks/cross_instrument/asdf_example/asdf_example.ipynb''), (''title'', YStr ''ASDF Example'')],
          YMap [(''file'', YStr ''notebooks/cross_instrument/background_estimation_imaging/Imaging_Sky_Background_Estimation.ipynb''), (''title'', YStr ''Complex 2D Background'')],
          YMap [(''file'', YStr ''notebooks/cross_instrument/composite_model_fitting/specfit_demo_3.ipynb''), (''title'', YStr ''Composite Model Spectral Fitting'')],
          YMap [(''file'', YStr ''notebooks/cross_instrument/rgb_imviz/imviz_rgb_carina.ipynb''), (''title'', YStr ''RGB images with Imviz'')],
          YMap [(''file'', YStr ''notebooks/cross_instrument/specviz_notebookGUI_interaction/specviz_notebook_gui_interaction_redshift.ipynb''), (''title'', YStr ''Specviz Simple Demo'')],
          YMap [(''file'', YStr ''notebooks/cross_instrument/update_pure_parallel_wcs/NIRISS_correct_pure_parallel_WCS.ipynb''), (''title'', YStr ''Improving Accuracy of WCS of Pure Parallel Dataset'')],
          YMap [(''file'', YStr ''notebooks/cross_instrument/stpsf_examples/stpsf_examples.ipynb''), (''title'', YStr ''STPSF Examples'')]])],
      YMap [(''caption'', YStr ''MIRI''),
        (''chapters'', YSeq [
          YMap [(''file'', YStr ''notebooks/MIRI/MRS_Mstar_analysis/JWST_Mstar_dataAnalysis_analysis.ipynb''), (''title'', YStr ''MRS Mstar - Data Analysis'')],
          YMap [(''file'', YStr ''notebooks/MIRI/MIRI_IFU_YSOs_in_the_LMC/isha_nayak_ysos_in_the_lmc.ipynb''), (''title'', YStr ''IFU of YSOs in LMC'')],
          YMap [(''file'', YStr ''notebooks/MIRI/MIRI_LRS_spectral_extraction/miri_lrs_advanced_extraction_part1.ipynb''), (''title'', YStr ''LRS Optimal Spectral Extraction'')]])],
      YMap [(''caption'', YStr ''NIRCam''),
        (''chapters'', YSeq [
          YMap [(''file'', YStr ''notebooks/NIRCam/aperture_photometry/NIRCam_Aperture_Photometry_Example.ipynb''), (''title'', YStr ''Point Source Aperture Photometry'')],
          YMap [(''file'', YStr ''notebooks/NIRCam/NIRCam_photometry/NIRCam_multiband_photometry.ipynb''), (''title'', YStr ''Extended Aperture Photometry'')],
          YMap [(''file'', YStr ''notebooks/NIRCam/NIRCam_PSF-matched_photometry/NIRCam_PSF_matched_multiband_photometry.ipynb''), (''title'', YStr ''Cross-Filter PSF Matching'')],
          YMap [(''file'', YStr ''notebooks/NIRCam/psf_photometry/NIRCam_PSF_Photometry_Example.ipynb''), (''title'', YStr ''PSF Photometry'')],
          YMap [(''file'', YStr ''notebooks/NIRCam/NIRCam_wisp_subtraction/nircam_wisp_subtraction.ipynb''), (''title'', YStr ''NIRCam Wisp Removal'')],
          YMap [(''file'', YStr ''notebooks/NIRCam/NIRCam_claw_detection/nircam_claw_detection.ipynb''), (''title'', YStr ''NIRCam Claw Detection'')]])],
      YMap [(''caption'', YStr ''NIRISS''),
        (''chapters'', YSeq [
          YMap [(''file'', YStr ''notebooks/NIRISS/NIRISS_WFSS_postpipeline/00_Optimal_extraction.ipynb''), (''title'', YStr ''WFSS Spectra - Optimal Extraction'')],
          YMap [(''file'', YStr ''notebooks/NIRISS/NIRISS_WFSS_postpipeline/01_Combine_and_normalize_1D_spectra.ipynb''), (''title'', YStr ''WFSS Spectra - Combine and Normalize 1D Spectra'')],
          YMap [(''file'', YStr ''notebooks/NIRISS/NIRISS_WFSS_postpipeline/02_Cross_correlation_template.ipynb''), (''title'', YStr ''WFSS Spectra - Cross-Correlation Template'')],
          YMap [(''file'', YStr ''notebooks/NIRISS/NIRISS_WFSS_postpipeline/03_Spatially_resolved_emission_line_map.ipynb''), (''title'', YStr ''WFSS Spectra - Emission Line Map'')],
          YMap [(''file'', YStr ''notebooks/NIRISS/NIRISS_WFSS_advanced/00_niriss_mast_query_data_setup.ipynb''), (''title'', YStr ''NIRISS MAST'')],
          YMap [(''file'', YStr ''notebooks/NIRISS/NIRISS_WFSS_advanced/01_niriss_wfss_image2_image3.ipynb''), (''title'', YStr ''Direct imaging for WFSS'')],
          YMap [(''file'', YStr ''notebooks/NIRISS/NIRISS_WFSS_advanced/02_niriss_wfss_spec2.ipynb''), (''title'', YStr ''Spec2 pipeline for WFSS'')]])],
      YMap [(''caption'', YStr ''NIRSpec''),
        (''chapters'', YSeq [
          YMap [(''file'', YStr ''notebooks/NIRSpec/IFU_cube_continuum_fit/NGC4151_FeII_ContinuumFit.ipynb''), (''title'', YStr ''IFU Background Subtraction'')],
          YMap [(''file'', YStr ''notebooks/NIRSpec/cube_fitting/cube_fitting.ipynb''), (''title'', YStr ''IFU Cube Modeling'')],
          YMap [(''file'', YStr ''notebooks/NIRSpec/ifu_optimal/ifu_optimal.ipynb''), (''title'', YStr ''IFU Optimal Spectral Extraction'')],
          YMap [(''file'', YStr ''notebooks/NIRSpec/optimal_extraction/Spectral_Extraction-static.ipynb''), (''title'', YStr ''MOS Optimal Extraction'')],
          YMap [(''file'', YStr ''notebooks/NIRSpec/mos_spectroscopy_advanced/MOSspec_advanced.ipynb''), (''title'', YStr ''MOS Spectroscopy of Extragalactic Field'')],
          YMap [(''file'', YStr ''notebooks/NIRSpec/transit_spectroscopy_notebook/Exoplanet_Transmission_Spectra_JWST.ipynb''), (''title'', YStr ''BOTS Time Series Observations'')],
          YMap [(''file'', YStr ''notebooks/NIRSpec/galaxy_redshift/redshift_fitting.ipynb''), (''title'', YStr ''Redshift and Template Fitting'')],
          YMap [(''file'', YStr ''notebooks/NIRSpec/NIRSpec_NSClean/FS_NSClean_example.ipynb''), (''title'', YStr ''FS Products with NSClean'')],
          YMap [(''file'', YStr ''notebooks/NIRSpec/NIRSpec_NSClean/IFU_NSClean_example.ipynb''), (''title'', YStr ''IFU Products with NSClean'')],
          YMap [(''file'', YStr ''notebooks/NIRSpec/NIRSpec_NSClean/MOS_NSClean_example.ipynb''), (''title'', YStr ''MOS Products with NSClean'')],
          YMap [(''file'', YStr ''notebooks/NIRSpec/NIRSpec_NSClean/BOTS_NSClean_example.ipynb''), (''title'', YStr ''BOTS Products with NSClean'')]])]])]"

text \<open>A chapter entry is a mapping with exactly the fields \<^verbatim>\<open>file\<close> and \<^verbatim>\<open>title\<close>,
  both strings; a part is a mapping with a \<^verbatim>\<open>caption\<close> string and a sequence
  \<^verbatim>\<open>chapters\<close> of chapter entries; a table of contents is a mapping whose field
  \<^verbatim>\<open>parts\<close> is a sequence of parts.\<close>

fun is_chapter :: "yaml \<Rightarrow> bool" where
  "is_chapter (YMap [(k1, YStr f), (k2, YStr t)]) = (k1 = ''file'' \<and> k2 = ''title'')"
| "is_chapter _ = False"

fun is_part :: "yaml \<Rightarrow> bool" where
  "is_part (YMap [(k1, YStr c), (k2, YSeq chs)]) =
     (k1 = ''caption'' \<and> k2 = ''chapters'' \<and> list_all is_chapter chs)"
| "is_part _ = False"

fun parts_of :: "yaml \<Rightarrow> yaml list option" where
  "parts_of (YMap kvs) = (case map_of kvs ''parts'' of Some (YSeq ps) \<Rightarrow> Some ps | _ \<Rightarrow> None)"
| "parts_of _ = None"

definition is_toc :: "yaml \<Rightarrow> bool" where
  "is_toc d = (case parts_of d of Some ps \<Rightarrow> list_all is_part ps | None \<Rightarrow> False)"

section \<open>The arithmetic of the notebook: IEEE 754 binary64\<close>

text \<open>
  The definitions above follow the cells in exact arithmetic. The cells themselves
  compute in numpy's \<^verbatim>\<open>float64\<close>, the IEEE 754 binary64 format with rounding to nearest,
  ties to even. This section gives that arithmetic and the two computations whose values
  depend on it, the combined flux and \<^verbatim>\<open>filconv\<close>, as the machine evaluates them.

  A binary64 value is a signed zero, a finite number \<open>\<plusminus> m * 2 ^ e\<close>, an infinity or a NaN.
  \<open>Finite s m e\<close> has the sign \<open>s\<close> (true for minus), the significand \<open>m < 2 ^ 53\<close> and
  the exponent \<open>- 1074 \<le> e \<le> 971\<close>; the significand is at least \<open>2 ^ 52\<close> unless the
  number is subnormal, where \<open>e = - 1074\<close>, so that a value has one representation.
\<close>

datatype b64 = Finite bool nat int | Infinity bool | NaN

definition pzero :: b64 where
  "pzero = Finite False 0 (- 1074)"

text \<open>The number of binary digits of a natural number.\<close>

fun bitlen :: "nat \<Rightarrow> int" where
  "bitlen n = (if n = 0 then 0 else 1 + bitlen (n div 2))"

declare bitlen.simps [simp del]

text \<open>Rounding to nearest, ties to even. The exact value is \<open>\<plusminus> (p / q) * 2 ^ k\<close> with
  \<open>q > 0\<close>. \<open>floor_log2 p q\<close> is the binary logarithm of \<open>p / q\<close> rounded down; the
  exponent of the result is \<open>e\<close>; the exact significand \<open>N / D\<close> is rounded to an integer;
  a significand that rounds up to \<open>2 ^ 53\<close> moves to the next exponent, and an exponent
  above \<open>971\<close> overflows to infinity.\<close>

definition adjust_log2 :: "nat \<Rightarrow> nat \<Rightarrow> int \<Rightarrow> int" where
  "adjust_log2 p q lg =
     (if 0 \<le> lg then (if q * 2 ^ nat lg \<le> p then lg else lg - 1)
      else (if q \<le> p * 2 ^ nat (- lg) then lg else lg - 1))"

definition floor_log2 :: "nat \<Rightarrow> nat \<Rightarrow> int" where
  "floor_log2 p q = adjust_log2 p q (bitlen p - bitlen q)"

definition round_nearest_even :: "nat \<Rightarrow> nat \<Rightarrow> nat" where
  "round_nearest_even N D =
     (if D < 2 * (N mod D) \<or> (2 * (N mod D) = D \<and> odd (N div D)) then N div D + 1
      else N div D)"

definition pack :: "bool \<Rightarrow> nat \<Rightarrow> int \<Rightarrow> b64" where
  "pack s m e =
     (if m = 2 ^ 53 then (if 971 < e + 1 then Infinity s else Finite s (2 ^ 52) (e + 1))
      else if 971 < e then Infinity s
      else Finite s m e)"

definition round_at :: "bool \<Rightarrow> nat \<Rightarrow> nat \<Rightarrow> int \<Rightarrow> int \<Rightarrow> b64" where
  "round_at s p q k e =
     pack s (if e \<le> k then round_nearest_even (p * 2 ^ nat (k - e)) q
             else round_nearest_even p (q * 2 ^ nat (e - k))) e"

definition round_b64 :: "bool \<Rightarrow> nat \<Rightarrow> nat \<Rightarrow> int \<Rightarrow> b64" where
  "round_b64 s p q k =
     (if p = 0 then Finite s 0 (- 1074)
      else round_at s p q k (max (floor_log2 p q + k - 52) (- 1074)))"

text \<open>A decimal literal \<open>p / q\<close> of the source, and the integers the source mixes with
  floats.\<close>

definition b64_of_frac :: "nat \<Rightarrow> nat \<Rightarrow> b64" where
  "b64_of_frac p q = round_b64 False p q 0"

fun fneg64 :: "b64 \<Rightarrow> b64" where
  "fneg64 (Finite s m e) = Finite (\<not> s) m e"
| "fneg64 (Infinity s) = Infinity (\<not> s)"
| "fneg64 NaN = NaN"

fun fmul64 :: "b64 \<Rightarrow> b64 \<Rightarrow> b64" where
  "fmul64 (Finite s m e) (Finite t n d) = round_b64 (s \<noteq> t) (m * n) 1 (e + d)"
| "fmul64 (Finite s m e) (Infinity t) = (if m = 0 then NaN else Infinity (s \<noteq> t))"
| "fmul64 (Infinity s) (Finite t n d) = (if n = 0 then NaN else Infinity (s \<noteq> t))"
| "fmul64 (Infinity s) (Infinity t) = Infinity (s \<noteq> t)"
| "fmul64 _ _ = NaN"

fun fdiv64 :: "b64 \<Rightarrow> b64 \<Rightarrow> b64" where
  "fdiv64 (Finite s m e) (Finite t n d) =
     (if n = 0 then (if m = 0 then NaN else Infinity (s \<noteq> t))
      else round_b64 (s \<noteq> t) m n (e - d))"
| "fdiv64 (Finite s m e) (Infinity t) = Finite (s \<noteq> t) 0 (- 1074)"
| "fdiv64 (Infinity s) (Finite t n d) = Infinity (s \<noteq> t)"
| "fdiv64 _ _ = NaN"

text \<open>The signed integer \<open>\<plusminus> m * 2 ^ (e - d)\<close> for \<open>d \<le> e\<close>.\<close>

definition scaled :: "bool \<Rightarrow> nat \<Rightarrow> int \<Rightarrow> int \<Rightarrow> int" where
  "scaled s m e d = (if s then - 1 else 1) * int m * 2 ^ nat (e - d)"

text \<open>The sum of two finite numbers. Adding a zero returns the other term; the sum of two
  zeros is negative only when both are; the exact sum \<open>z * 2 ^ x\<close> of two other numbers
  is rounded, and is the positive zero when it is zero.\<close>

definition round_sum :: "int \<Rightarrow> int \<Rightarrow> b64" where
  "round_sum z x =
     (if z = 0 then Finite False 0 (- 1074)
      else round_b64 (z < 0) (nat \<bar>z\<bar>) 1 x)"

fun fadd64 :: "b64 \<Rightarrow> b64 \<Rightarrow> b64" where
  "fadd64 (Finite s m e) (Finite t n d) =
     (if m = 0 \<and> n = 0 then Finite (s \<and> t) 0 (- 1074)
      else if m = 0 then Finite t n d
      else if n = 0 then Finite s m e
      else round_sum (scaled s m e (min e d) + scaled t n d (min e d)) (min e d))"
| "fadd64 (Finite s m e) (Infinity t) = Infinity t"
| "fadd64 (Infinity s) (Finite t n d) = Infinity s"
| "fadd64 (Infinity s) (Infinity t) = (if s = t then Infinity s else NaN)"
| "fadd64 _ _ = NaN"

definition fsub64 :: "b64 \<Rightarrow> b64 \<Rightarrow> b64" where
  "fsub64 a b = fadd64 a (fneg64 b)"

text \<open>The comparisons; every comparison with a NaN is false.\<close>

fun flt64 :: "b64 \<Rightarrow> b64 \<Rightarrow> bool" where
  "flt64 (Finite s m e) (Finite t n d) = (scaled s m e (min e d) < scaled t n d (min e d))"
| "flt64 (Finite s m e) (Infinity t) = (\<not> t)"
| "flt64 (Infinity s) (Finite t n d) = s"
| "flt64 (Infinity s) (Infinity t) = (s \<and> \<not> t)"
| "flt64 _ _ = False"

fun feq64 :: "b64 \<Rightarrow> b64 \<Rightarrow> bool" where
  "feq64 (Finite s m e) (Finite t n d) = (scaled s m e (min e d) = scaled t n d (min e d))"
| "feq64 (Infinity s) (Infinity t) = (s = t)"
| "feq64 _ _ = False"

definition fle64 :: "b64 \<Rightarrow> b64 \<Rightarrow> bool" where
  "fle64 a b \<longleftrightarrow> flt64 a b \<or> feq64 a b"

text \<open>\<^verbatim>\<open>np.maximum\<close> and \<^verbatim>\<open>np.minimum\<close> keep a NaN; \<^verbatim>\<open>np.max\<close> and \<^verbatim>\<open>np.min\<close>
  reduce with them from the first element and raise ValueError on an empty array.\<close>

definition maximum64 :: "b64 \<Rightarrow> b64 \<Rightarrow> b64" where
  "maximum64 a b = (if fle64 b a \<or> a = NaN then a else b)"

definition minimum64 :: "b64 \<Rightarrow> b64 \<Rightarrow> b64" where
  "minimum64 a b = (if fle64 a b \<or> a = NaN then a else b)"

definition np_max64 :: "b64 list \<Rightarrow> error + b64" where
  "np_max64 xs = (case xs of [] \<Rightarrow> Inl ValueError | x # r \<Rightarrow> Inr (foldl maximum64 x r))"

definition np_min64 :: "b64 list \<Rightarrow> error + b64" where
  "np_min64 xs = (case xs of [] \<Rightarrow> Inl ValueError | x # r \<Rightarrow> Inr (foldl minimum64 x r))"

text \<open>An infinity or a NaN.\<close>

definition nonfinite :: "b64 \<Rightarrow> bool" where
  "nonfinite x \<longleftrightarrow> (case x of Finite s m e \<Rightarrow> False | _ \<Rightarrow> True)"

text \<open>
  \<^verbatim>\<open>np.sum\<close> of a 1-D array adds numpy's pairwise sum of the elements to the initial
  value \<^verbatim>\<open>0.0\<close>. The pairwise sum adds fewer than 8 elements in order; it adds up to 128
  elements in 8 interleaved accumulators, combines them as
  \<^verbatim>\<open>((r0 + r1) + (r2 + r3)) + ((r4 + r5) + (r6 + r7))\<close> and adds the remaining elements in
  order; and it splits a longer array at a multiple of 8 near the middle. The arrays
  evaluated below have two elements, which are added in order; the sign of the zero a sum
  starts from shows only in the sign of a sum that is zero.
\<close>

fun accumulate8 :: "b64 list \<Rightarrow> b64 list \<Rightarrow> b64 list \<times> b64 list" where
  "accumulate8 r xs =
     (if length xs < 8 then (r, xs)
      else accumulate8 (map2 fadd64 r (take 8 xs)) (drop 8 xs))"

declare accumulate8.simps [simp del]

function pairwise_sum :: "b64 list \<Rightarrow> b64" where
  "pairwise_sum a =
     (let n = length a in
      if n < 8 then foldl fadd64 pzero a
      else if n \<le> 128 then
        (let (r, rest) = accumulate8 (take 8 a) (drop 8 a);
             res = fadd64 (fadd64 (fadd64 (r ! 0) (r ! 1)) (fadd64 (r ! 2) (r ! 3)))
                          (fadd64 (fadd64 (r ! 4) (r ! 5)) (fadd64 (r ! 6) (r ! 7)))
         in foldl fadd64 res rest)
      else
        (let n2 = n div 2 - (n div 2) mod 8
         in fadd64 (pairwise_sum (take n2 a)) (pairwise_sum (drop n2 a))))"
  by pat_completeness auto
termination
  by (relation "measure length") auto

declare pairwise_sum.simps [simp del]

definition np_sum64 :: "b64 list \<Rightarrow> b64" where
  "np_sum64 a = fadd64 pzero (pairwise_sum a)"

subsection \<open>The combined flux in binary64\<close>

text \<open>
\<^verbatim>\<open>
    flux_combine[ii] = np.sum(flux[:, ii] * 1 / flux_err[:, ii]**2) / np.sum(1 / flux_err[:, ii]**2)
\<close>
  The integer \<^verbatim>\<open>1\<close> is converted to \<^verbatim>\<open>1.0\<close>, and numpy squares by multiplying.
\<close>

definition one64 :: b64 where
  "one64 = Finite False (2 ^ 52) (- 52)"

definition flux_combine_at64 :: "b64 list list \<Rightarrow> b64 list list \<Rightarrow> nat \<Rightarrow> b64" where
  "flux_combine_at64 flux flux_err ii =
     fdiv64 (np_sum64 (map2 (\<lambda>f e. fdiv64 (fmul64 f one64) (fmul64 e e))
                          (column flux ii) (column flux_err ii)))
            (np_sum64 (map (\<lambda>e. fdiv64 one64 (fmul64 e e)) (column flux_err ii)))"

subsection \<open>\<^verbatim>\<open>filconv\<close> in binary64\<close>

text \<open>The function \<^verbatim>\<open>filconv\<close> line by line as in the exact reading, with the
  operations of binary64. The interpolant \<open>ip\<close> and the quadrature rule \<open>S\<close> are the libraries' and
  remain parameters, now on binary64 values.\<close>

type_synonym interp64 = "b64 \<Rightarrow> b64 list \<Rightarrow> b64 list \<Rightarrow> b64"

type_synonym quadrature64 = "b64 list \<Rightarrow> b64 list \<Rightarrow> b64"

definition np_interp64 :: "interp64 \<Rightarrow> b64 list \<Rightarrow> b64 list \<Rightarrow> b64 list \<Rightarrow> error + b64 list" where
  "np_interp64 ip x xp fp =
     (if xp = [] \<or> length fp \<noteq> length xp then Inl ValueError
      else Inr (map (\<lambda>v. ip v xp fp) x))"

definition simpson64 :: "quadrature64 \<Rightarrow> b64 list \<Rightarrow> b64 list \<Rightarrow> error + b64" where
  "simpson64 S y x = (if length x \<noteq> length y then Inl ValueError else Inr (S y x))"

definition two64 :: b64 where
  "two64 = Finite False (2 ^ 52) (- 51)"

definition filconv64 ::
  "interp64 \<Rightarrow> quadrature64 \<Rightarrow> b64 list \<Rightarrow> b64 list \<Rightarrow> b64 list \<Rightarrow> b64 list \<Rightarrow> string \<Rightarrow> b64
     \<Rightarrow> error + (b64 \<times> b64)" where
  "filconv64 ip S lfil ffil l0 f0 DIR c =
     bind_err (np_max64 ffil) (\<lambda>fmax.
     let fhalf = fdiv64 fmax two64;
         con = map (\<lambda>f. flt64 fhalf f) ffil in
     bind_err (bool_index lfil con) (\<lambda>sel.
     bind_err (np_min64 sel) (\<lambda>lfwhml.
     bind_err (np_max64 sel) (\<lambda>lfwhmr.
     let lcen = fdiv64 (fadd64 lfwhmr lfwhml) two64;
         lamS = l0; spec = f0;
         lamF = lfil; filt = ffil in
     bind_err (np_interp64 ip lamS lamF filt) (\<lambda>filt_int.
     if length lamS > 0 then
       bind_err (np_broadcast2 fdiv64 spec (map (\<lambda>l. fmul64 l l) lamS)) (\<lambda>t1.
       bind_err (np_broadcast2 fmul64 (map (\<lambda>t. fmul64 t c) t1) filt_int) (\<lambda>t2.
       bind_err (np_broadcast2 fmul64 t2 lamS) (\<lambda>t3.
       bind_err (simpson64 S t3 lamS) (\<lambda>I1.
       bind_err (np_broadcast2 fdiv64 filt_int lamS) (\<lambda>t4.
       bind_err (simpson64 S t4 lamS) (\<lambda>I2.
       Inr (lcen, fdiv64 (fdiv64 I1 I2) c)))))))
     else Inr (lcen, pzero))))))"

text \<open>The default \<^verbatim>\<open>c=3e18\<close> as a binary64 value.\<close>

definition c_default64 :: b64 where
  "c_default64 = b64_of_frac (3 * 10 ^ 18) 1"

subsection \<open>Library rules in binary64 for worked examples\<close>

text \<open>numpy's interpolation between increasing sample points, \<^verbatim>\<open>slope*(x - xp[j]) + fp[j]\<close>
  with \<^verbatim>\<open>slope = (fp[j+1] - fp[j]) / (xp[j+1] - xp[j])\<close>, the sample value at a sample
  point and the end values outside; and the rule
  \<^verbatim>\<open>0.5 * (x[i+1] - x[i]) * (y[i+1] + y[i])\<close>, which is what scipy's \<^verbatim>\<open>simpson\<close> returns for
  two samples.\<close>

fun lin_interp64 :: interp64 where
  "lin_interp64 v (x0 # x1 # xp) (f0 # f1 # fp) =
     (if fle64 v x0 then f0
      else if flt64 v x1
        then fadd64 (fmul64 (fdiv64 (fsub64 f1 f0) (fsub64 x1 x0)) (fsub64 v x0)) f0
      else lin_interp64 v (x1 # xp) (f1 # fp))"
| "lin_interp64 v [x0] [f0] = f0"
| "lin_interp64 v _ _ = NaN"

definition half64 :: b64 where
  "half64 = Finite False (2 ^ 52) (- 53)"

fun trapezoid64 :: quadrature64 where
  "trapezoid64 (y0 # y1 # ys) (x0 # x1 # xs) =
     fadd64 (fmul64 (fmul64 half64 (fsub64 x1 x0)) (fadd64 y1 y0))
            (trapezoid64 (y1 # ys) (x1 # xs))"
| "trapezoid64 _ _ = pzero"

section \<open>Properties\<close>

subsection \<open>Float values and numpy primitives\<close>

lemma fmul_None_right [simp]: "fmul a None = None"
  by (cases a) simp_all

lemma fdiv_None_right [simp]: "fdiv a None = None"
  by (cases a) simp_all

lemma fmul_commute: "fmul a b = fmul b a"
  by (cases a; cases b) simp_all

lemma fmul_assoc: "fmul (fmul a b) d = fmul a (fmul b d)"
  by (cases a; cases b; cases d) simp_all

lemma fdiv_fmul_left: "fdiv (fmul (Some k) a) b = fmul (Some k) (fdiv a b)"
  by (cases a; cases b) simp_all

lemma those_map_Some [simp]: "those (map Some xs) = Some xs"
  by (induction xs) simp_all

lemma those_eq_Some: "those xs = Some ys \<longleftrightarrow> xs = map Some ys"
  by (induction xs arbitrary: ys) (auto split: option.splits)

lemma those_map_fmul:
  "those (map (fmul (Some k)) ys) = map_option (map ((*) k)) (those ys)"
proof (induction ys)
  case Nil
  show ?case by simp
next
  case (Cons y ys)
  show ?case by (cases y) (simp_all add: Cons.IH option.map_comp comp_def split: option.splits)
qed



lemma np_max_Nil [simp]: "np_max [] = Inl ValueError"
  by (simp add: np_max_def)


lemma bool_index_map:
  "bool_index (map g a) con = map_sum id (map g) (bool_index a con)"
proof -
  have "map fst (filter snd (zip (map g a) con)) = map g (map fst (filter snd (zip a con)))"
    by (induction a arbitrary: con) (auto split: list.splits simp: zip_Cons1)
  then show ?thesis by (simp add: bool_index_def)
qed

lemma bool_index_length:
  "bool_index a con = Inr s \<Longrightarrow> bool_index b con = Inr t \<Longrightarrow> length s = length t"
proof -
  have "length a = length b \<Longrightarrow>
        length (filter snd (zip a con)) = length (filter snd (zip b con))" for a :: "'a list" and b :: "'b list"
    by (induction a b arbitrary: con rule: list_induct2) (auto split: list.splits simp: zip_Cons1)
  then show "bool_index a con = Inr s \<Longrightarrow> bool_index b con = Inr t \<Longrightarrow> length s = length t"
    by (auto simp: bool_index_def split: if_splits)
qed

lemma str_nat_examples:
  "str_nat 0 = ''0''" "str_nat (Suc 0) = ''1''" "str_nat 309 = ''309''"
  by code_simp+

subsection \<open>Binary64: evaluation, and sums with an infinite or NaN term\<close>

text \<open>Rules that evaluate the binary64 operations on numerals.\<close>

lemma bitlen_0: "bitlen 0 = 0"
  by (simp add: bitlen.simps)

lemma bitlen_numeral: "bitlen (numeral k) = 1 + bitlen (numeral k div 2)"
  by (subst bitlen.simps) simp

lemma bitlen_Suc0: "bitlen (Suc 0) = 1"
  by (simp add: bitlen.simps [of "Suc 0"] bitlen.simps [of 0])

lemma bitlen_1: "bitlen 1 = 1"
  using bitlen_Suc0 by simp

lemma pairwise_sum_short: "length a < 8 \<Longrightarrow> pairwise_sum a = foldl fadd64 pzero a"
  by (subst pairwise_sum.simps) simp

lemmas b64_eval = bitlen_0 bitlen_numeral bitlen_Suc0 bitlen_1 adjust_log2_def floor_log2_def
  round_nearest_even_def pack_def round_at_def round_b64_def round_sum_def scaled_def
  b64_of_frac_def fsub64_def fle64_def maximum64_def minimum64_def np_max64_def np_min64_def
  np_sum64_def pairwise_sum_short pzero_def one64_def two64_def half64_def c_default64_def

lemmas filconv64_eval = filconv64_def np_interp64_def simpson64_def bool_index_def
  np_broadcast2_def

text \<open>The decimal literals of the examples: \<^verbatim>\<open>0.1\<close>, \<^verbatim>\<open>0.8\<close>, \<^verbatim>\<open>0.3\<close>, small
  integers, \<^verbatim>\<open>2.5\<close> and \<^verbatim>\<open>3e18\<close>.\<close>

lemma literals:
  "b64_of_frac 1 10 = Finite False 7205759403792794 (- 56)"
  "b64_of_frac 8 10 = Finite False 7205759403792794 (- 53)"
  "b64_of_frac 3 10 = Finite False 5404319552844595 (- 54)"
  "b64_of_frac 1 1 = Finite False 4503599627370496 (- 52)"
  "b64_of_frac 2 1 = Finite False 4503599627370496 (- 51)"
  "b64_of_frac 3 1 = Finite False 6755399441055744 (- 51)"
  "b64_of_frac 4 1 = Finite False 4503599627370496 (- 50)"
  "b64_of_frac 5 1 = Finite False 5629499534213120 (- 50)"
  "b64_of_frac 7 1 = Finite False 7881299347898368 (- 50)"
  "b64_of_frac 13 1 = Finite False 7318349394477056 (- 49)"
  "b64_of_frac 5 2 = Finite False 5629499534213120 (- 51)"
  "c_default64 = Finite False 5859375000000000 9"
  by (simp_all add: b64_eval)

text \<open>An infinity or a NaN among the terms of a sum stays: \<^verbatim>\<open>np.sum\<close> of an
  array that holds one is an infinity or a NaN. So the combined flux is NaN as soon as the
  square of one uncertainty is zero: both sums then hold an infinity or a NaN.\<close>

lemma fadd64_nonfinite: "nonfinite a \<or> nonfinite b \<Longrightarrow> nonfinite (fadd64 a b)"
  by (cases a; cases b) (simp_all add: nonfinite_def)

lemma foldl_nonfinite:
  "nonfinite acc \<or> (\<exists>x\<in>set xs. nonfinite x) \<Longrightarrow> nonfinite (foldl fadd64 acc xs)"
proof (induction xs arbitrary: acc)
  case Nil
  then show ?case by simp
next
  case (Cons x xs)
  have "nonfinite (fadd64 acc x) \<or> (\<exists>y\<in>set xs. nonfinite y)"
    using Cons.prems fadd64_nonfinite [of acc x] by auto
  then show ?case using Cons.IH [of "fadd64 acc x"] by simp
qed

lemma accumulate8_length:
  "length r = 8 \<Longrightarrow> length (fst (accumulate8 r xs)) = 8"
proof (induction r xs rule: accumulate8.induct)
  case (1 r xs)
  show ?case
  proof (cases "length xs < 8")
    case True
    then show ?thesis using 1(2) by (subst accumulate8.simps) simp
  next
    case False
    have "length (map2 fadd64 r (take 8 xs)) = 8" using False 1(2) by simp
    then show ?thesis using 1(1) [OF False] False by (subst accumulate8.simps) simp
  qed
qed

lemma map2_nonfinite:
  assumes "length r = length ys" and "(\<exists>x\<in>set r. nonfinite x) \<or> (\<exists>x\<in>set ys. nonfinite x)"
  shows "\<exists>x\<in>set (map2 fadd64 r ys). nonfinite x"
proof -
  obtain i where i: "i < length r" "nonfinite (r ! i) \<or> nonfinite (ys ! i)"
    using assms by (auto simp: in_set_conv_nth)
  then have "nonfinite (map2 fadd64 r ys ! i)"
    using assms(1) by (simp add: fadd64_nonfinite)
  moreover have "i < length (map2 fadd64 r ys)" using i assms(1) by simp
  ultimately show ?thesis by (metis nth_mem)
qed

lemma accumulate8_nonfinite:
  "length r = 8 \<Longrightarrow> (\<exists>x\<in>set r \<union> set xs. nonfinite x) \<Longrightarrow>
     (\<exists>x\<in>set (fst (accumulate8 r xs)) \<union> set (snd (accumulate8 r xs)). nonfinite x)"
proof (induction r xs rule: accumulate8.induct)
  case (1 r xs)
  show ?case
  proof (cases "length xs < 8")
    case True
    then show ?thesis using 1(3) by (subst (1 2) accumulate8.simps) simp
  next
    case False
    have len: "length r = length (take 8 xs)" using False 1(2) by simp
    have "set xs = set (take 8 xs) \<union> set (drop 8 xs)"
      by (metis append_take_drop_id set_append)
    then have "(\<exists>x\<in>set r. nonfinite x) \<or> (\<exists>x\<in>set (take 8 xs). nonfinite x)
               \<or> (\<exists>x\<in>set (drop 8 xs). nonfinite x)"
      using 1(3) by auto
    then have "\<exists>x\<in>set (map2 fadd64 r (take 8 xs)) \<union> set (drop 8 xs). nonfinite x"
      using map2_nonfinite [OF len] by auto
    moreover have "length (map2 fadd64 r (take 8 xs)) = 8" using len 1(2) by simp
    ultimately show ?thesis
      using 1(1) [OF False] False by (subst (1 2) accumulate8.simps) simp
  qed
qed

lemma tree8_nonfinite:
  assumes "length r = 8" and "\<exists>x\<in>set r. nonfinite x"
  shows "nonfinite (fadd64 (fadd64 (fadd64 (r ! 0) (r ! 1)) (fadd64 (r ! 2) (r ! 3)))
                           (fadd64 (fadd64 (r ! 4) (r ! 5)) (fadd64 (r ! 6) (r ! 7))))"
proof -
  obtain i where i: "i < 8" "nonfinite (r ! i)"
    using assms by (auto simp: in_set_conv_nth)
  from i(1) have "i = 0 \<or> i = 1 \<or> i = 2 \<or> i = 3 \<or> i = 4 \<or> i = 5 \<or> i = 6 \<or> i = 7"
    by arith
  then show ?thesis
    using i(2) by (elim disjE) (simp_all add: fadd64_nonfinite)
qed

lemma pairwise_sum_nonfinite:
  "\<exists>x\<in>set a. nonfinite x \<Longrightarrow> nonfinite (pairwise_sum a)"
proof (induction a rule: pairwise_sum.induct)
  case (1 a)
  show ?case
  proof (cases "length a < 8")
    case True
    then show ?thesis
      using 1(3) foldl_nonfinite [of pzero a] by (subst pairwise_sum.simps) simp
  next
    case False
    note ge8 = this
    show ?thesis
    proof (cases "length a \<le> 128")
      case True
      obtain r rest where acc: "accumulate8 (take 8 a) (drop 8 a) = (r, rest)"
        by (cases "accumulate8 (take 8 a) (drop 8 a)")
      have l8: "length (take 8 a) = 8" using ge8 by simp
      have "set a = set (take 8 a) \<union> set (drop 8 a)"
        by (metis append_take_drop_id set_append)
      then have "\<exists>x\<in>set (take 8 a) \<union> set (drop 8 a). nonfinite x" using 1(3) by simp
      from accumulate8_nonfinite [OF l8 this] accumulate8_length [OF l8, of "drop 8 a"]
      have ex: "\<exists>x\<in>set r \<union> set rest. nonfinite x" and lr: "length r = 8"
        unfolding acc by simp_all
      have "nonfinite (foldl fadd64
               (fadd64 (fadd64 (fadd64 (r ! 0) (r ! 1)) (fadd64 (r ! 2) (r ! 3)))
                       (fadd64 (fadd64 (r ! 4) (r ! 5)) (fadd64 (r ! 6) (r ! 7)))) rest)"
        using ex tree8_nonfinite [OF lr] by (intro foldl_nonfinite) auto
      then show ?thesis
        using ge8 True acc by (subst pairwise_sum.simps) simp
    next
      case False
      define n2 where "n2 = length a div 2 - (length a div 2) mod 8"
      have "set a = set (take n2 a) \<union> set (drop n2 a)"
        by (metis append_take_drop_id set_append)
      then have "(\<exists>x\<in>set (take n2 a). nonfinite x) \<or> (\<exists>x\<in>set (drop n2 a). nonfinite x)"
        using 1(3) by auto
      then have "nonfinite (pairwise_sum (take n2 a)) \<or> nonfinite (pairwise_sum (drop n2 a))"
        using 1(1) [OF refl ge8 False n2_def [symmetric, THEN sym]]
              1(2) [OF refl ge8 False n2_def [symmetric, THEN sym]] by auto
      then show ?thesis
        using ge8 False fadd64_nonfinite
        by (subst pairwise_sum.simps) (simp add: n2_def Let_def)
    qed
  qed
qed

lemma np_sum64_nonfinite:
  "\<exists>x\<in>set a. nonfinite x \<Longrightarrow> nonfinite (np_sum64 a)"
  unfolding np_sum64_def by (simp add: fadd64_nonfinite pairwise_sum_nonfinite)

lemma feq64_pzero: "feq64 x pzero \<Longrightarrow> \<exists>s e. x = Finite s 0 e"
  by (cases x) (simp_all add: pzero_def scaled_def split: if_splits)

lemma fdiv64_zero_nonfinite: "nonfinite (fdiv64 x (Finite s 0 e))"
  by (cases x) (simp_all add: nonfinite_def)

lemma fdiv64_nonfinite: "nonfinite a \<Longrightarrow> nonfinite b \<Longrightarrow> fdiv64 a b = NaN"
  by (cases a; cases b) (simp_all add: nonfinite_def)

lemma flux_combine_at64_zero_square:
  assumes "length flux = length flux_err" and "d < length flux_err"
    and "feq64 (fmul64 (flux_err ! d ! ii) (flux_err ! d ! ii)) pzero"
  shows "flux_combine_at64 flux flux_err ii = NaN"
proof -
  obtain s k where z: "fmul64 (flux_err ! d ! ii) (flux_err ! d ! ii) = Finite s 0 k"
    using feq64_pzero [OF assms(3)] by blast
  let ?num = "map2 (\<lambda>f e. fdiv64 (fmul64 f one64) (fmul64 e e)) (column flux ii) (column flux_err ii)"
  let ?den = "map (\<lambda>e. fdiv64 one64 (fmul64 e e)) (column flux_err ii)"
  have "d < length ?num" using assms(1,2) by (simp add: column_def)
  then have "?num ! d \<in> set ?num" by (rule nth_mem)
  moreover have "nonfinite (?num ! d)"
    using assms(1,2) z by (simp add: column_def fdiv64_zero_nonfinite)
  ultimately have "\<exists>x\<in>set ?num. nonfinite x" by (rule bexI [rotated])
  then have n: "nonfinite (np_sum64 ?num)" by (rule np_sum64_nonfinite)
  have "d < length ?den" using assms(2) by (simp add: column_def)
  then have "?den ! d \<in> set ?den" by (rule nth_mem)
  moreover have "nonfinite (?den ! d)"
    using assms(2) z by (simp add: column_def fdiv64_zero_nonfinite)
  ultimately have "\<exists>x\<in>set ?den. nonfinite x" by (rule bexI [rotated])
  then have "nonfinite (np_sum64 ?den)" by (rule np_sum64_nonfinite)
  with n show ?thesis
    unfolding flux_combine_at64_def by (rule fdiv64_nonfinite)
qed

subsection \<open>The structure of \<^verbatim>\<open>filconv\<close>\<close>

lemma fwhm_center_ok:
  assumes "fwhm_center lfil ffil = Inr lcen"
  shows "lfil \<noteq> [] \<and> length ffil = length lfil"
proof -
  obtain fmax where m: "np_max ffil = Inr fmax"
    using assms by (cases "np_max ffil") (simp_all add: fwhm_center_def)
  then have ne: "ffil \<noteq> []" by (auto simp: np_max_def)
  obtain sel where "bool_index lfil (map (\<lambda>f. f > fmax / 2) ffil) = Inr sel"
    using assms m by (cases "bool_index lfil (map (\<lambda>f. f > fmax / 2) ffil)") (simp_all add: fwhm_center_def)
  then have "length ffil = length lfil"
    by (simp add: bool_index_def split: if_splits)
  with ne show ?thesis by auto
qed

lemma integrand_chain:
  assumes "length g = length l0" "length fi = length l0"
  shows "map2 fmul (map2 fmul (map (\<lambda>t. fmul t (Some c)) (map2 fdiv g (map (\<lambda>l. Some (l ^ 2)) l0)))
                      (map Some fi)) (map Some l0)
         = map (integrand1 c) (zip g (zip l0 fi))"
  using assms by (intro nth_equalityI) (simp_all add: integrand1_def)

lemma integrand2_chain:
  assumes "length fi = length l0"
  shows "map2 fdiv (map Some fi) (map Some l0) = map integrand2 (zip l0 fi)"
  using assms by (intro nth_equalityI) (simp_all add: integrand2_def)

lemma filconv_tail:
  assumes "l0 \<noteq> []" "length fi = length l0"
  shows "bind_err (np_broadcast2 fdiv f0 (map (\<lambda>l. Some (l ^ 2)) l0)) (\<lambda>t1.
         bind_err (np_broadcast2 fmul (map (\<lambda>t. fmul t (Some c)) t1) (map Some fi)) (\<lambda>t2.
         bind_err (np_broadcast2 fmul t2 (map Some l0)) (\<lambda>t3.
         bind_err (simpson S t3 l0) (\<lambda>I1.
         bind_err (np_broadcast2 fdiv (map Some fi) (map Some l0)) (\<lambda>t4.
         bind_err (simpson S t4 l0) (\<lambda>I2.
         Inr (lcen, fdiv (fdiv I1 I2) (Some c))))))))
       = (if length f0 = length l0 \<or> length f0 = 1
          then Inr (lcen, fdiv (fdiv (quad S (map (integrand1 c) (zip (broadcast_to (length l0) f0) (zip l0 fi))) l0)
                                     (quad S (map integrand2 (zip l0 fi)) l0)) (Some c))
          else Inl ValueError)"
    (is "?lhs = ?rhs")
proof -
  let ?sq = "map (\<lambda>l. Some (l ^ 2)) l0"
  have b4: "np_broadcast2 fdiv (map Some fi) (map Some l0) = Inr (map integrand2 (zip l0 fi))"
    using assms(2) by (simp add: np_broadcast2_def integrand2_chain)
  have s4: "simpson S (map integrand2 (zip l0 fi)) l0 = Inr (quad S (map integrand2 (zip l0 fi)) l0)"
    using assms(2) by (simp add: simpson_def quad_def)
  have good: "?lhs = Inr (lcen, fdiv (fdiv (quad S (map (integrand1 c) (zip g (zip l0 fi))) l0)
                                     (quad S (map integrand2 (zip l0 fi)) l0)) (Some c))"
    if t1: "np_broadcast2 fdiv f0 ?sq = Inr (map2 fdiv g ?sq)" and g: "length g = length l0" for g
  proof -
    let ?t1 = "map (\<lambda>t. fmul t (Some c)) (map2 fdiv g ?sq)"
    have b2: "np_broadcast2 fmul ?t1 (map Some fi) = Inr (map2 fmul ?t1 (map Some fi))"
      using assms(2) g by (simp add: np_broadcast2_def)
    have b3: "np_broadcast2 fmul (map2 fmul ?t1 (map Some fi)) (map Some l0)
                = Inr (map (integrand1 c) (zip g (zip l0 fi)))"
      using assms(2) g integrand_chain [of g l0 fi c] by (simp add: np_broadcast2_def)
    have s3: "simpson S (map (integrand1 c) (zip g (zip l0 fi))) l0
                = Inr (quad S (map (integrand1 c) (zip g (zip l0 fi))) l0)"
      using assms(2) g by (simp add: simpson_def quad_def)
    show ?thesis
      by (simp only: t1 b2 b3 s3 b4 s4 bind_err.simps)
  qed
  consider (same) "length f0 = length l0"
    | (one) "length f0 \<noteq> length l0" "length f0 = 1"
    | (lam1) "length f0 \<noteq> length l0" "length f0 \<noteq> 1" "length l0 = 1"
    | (bad) "length f0 \<noteq> length l0" "length f0 \<noteq> 1" "length l0 \<noteq> 1"
    by blast
  then show ?thesis
  proof cases
    case same
    have "np_broadcast2 fdiv f0 ?sq = Inr (map2 fdiv f0 ?sq)"
      using same by (simp add: np_broadcast2_def)
    from good [OF this same] same show ?thesis
      by (simp add: broadcast_to_def)
  next
    case one
    have "np_broadcast2 fdiv f0 ?sq = Inr (map2 fdiv (replicate (length l0) (hd f0)) ?sq)"
      using one by (simp add: np_broadcast2_def) (rule nth_equalityI, simp_all)
    from good [OF this] one show ?thesis
      by (simp add: broadcast_to_def)
  next
    case lam1
    let ?d = "\<lambda>x. fdiv x (hd ?sq)"
    let ?m = "\<lambda>x. fmul x (hd (map Some fi))"
    let ?n = "\<lambda>x. fmul x (hd (map Some l0))"
    have b1: "np_broadcast2 fdiv f0 ?sq = Inr (map ?d f0)"
      using lam1 by (simp add: np_broadcast2_def)
    have b2: "np_broadcast2 fmul (map (\<lambda>t. fmul t (Some c)) (map ?d f0)) (map Some fi)
               = Inr (map ?m (map (\<lambda>t. fmul t (Some c)) (map ?d f0)))"
      using lam1 assms(2) by (simp add: np_broadcast2_def)
    have b3: "np_broadcast2 fmul (map ?m (map (\<lambda>t. fmul t (Some c)) (map ?d f0))) (map Some l0)
               = Inr (map ?n (map ?m (map (\<lambda>t. fmul t (Some c)) (map ?d f0))))"
      using lam1 by (simp add: np_broadcast2_def)
    have s3: "simpson S (map ?n (map ?m (map (\<lambda>t. fmul t (Some c)) (map ?d f0)))) l0 = Inl ValueError"
      using lam1 by (simp add: simpson_def)
    have "?lhs = Inl ValueError"
      by (simp only: b1 b2 b3 s3 bind_err.simps)
    then show ?thesis using lam1 by simp
  next
    case bad
    have "np_broadcast2 fdiv f0 ?sq = Inl ValueError"
      using bad by (simp add: np_broadcast2_def)
    then show ?thesis using bad by simp
  qed
qed

lemma filconv_fwhm:
  "filconv ip S lfil ffil l0 f0 DIR c =
     bind_err (fwhm_center lfil ffil) (\<lambda>lcen.
     bind_err (np_interp ip l0 lfil ffil) (\<lambda>filt_int.
     if length l0 > 0 then
       bind_err (np_broadcast2 fdiv f0 (map (\<lambda>l. Some (l ^ 2)) l0)) (\<lambda>t1.
       bind_err (np_broadcast2 fmul (map (\<lambda>t. fmul t (Some c)) t1) (map Some filt_int)) (\<lambda>t2.
       bind_err (np_broadcast2 fmul t2 (map Some l0)) (\<lambda>t3.
       bind_err (simpson S t3 l0) (\<lambda>I1.
       bind_err (np_broadcast2 fdiv (map Some filt_int) (map Some l0)) (\<lambda>t4.
       bind_err (simpson S t4 l0) (\<lambda>I2.
       Inr (lcen, fdiv (fdiv I1 I2) (Some c))))))))
     else Inr (lcen, Some 0)))"
proof -
  have assoc: "bind_err (bind_err m f) g = bind_err m (\<lambda>x. bind_err (f x) g)"
    for m :: "error + 'x" and f :: "'x \<Rightarrow> error + 'y" and g :: "'y \<Rightarrow> error + 'z"
    by (cases m) simp_all
  show ?thesis
    unfolding filconv_def fwhm_center_def Let_def assoc
    by (simp only: bind_err.simps)
qed

lemma filconv_split:
  "filconv ip S lfil ffil l0 f0 DIR c =
     bind_err (fwhm_center lfil ffil) (\<lambda>lcen.
       if l0 = [] then Inr (lcen, Some 0)
       else if length f0 = length l0 \<or> length f0 = 1
       then Inr (lcen, fnu_of ip S lfil ffil l0 f0 c)
       else Inl ValueError)"
proof (cases "fwhm_center lfil ffil")
  case (Inl err)
  then show ?thesis
    by (simp add: filconv_fwhm)
next
  case (Inr lcen)
  note ok = fwhm_center_ok [OF Inr]
  have ip: "np_interp ip l0 lfil ffil = Inr (map (\<lambda>v. ip v lfil ffil) l0)"
    using ok by (simp add: np_interp_def)
  show ?thesis
  proof (cases "l0 = []")
    case True
    then show ?thesis
      using Inr ip by (simp add: filconv_fwhm)
  next
    case False
    have len: "length (map (\<lambda>v. ip v lfil ffil) l0) = length l0" by simp
    have pos: "length l0 > 0" using False by simp
    show ?thesis
      unfolding filconv_fwhm Inr ip bind_err.simps if_P [OF pos] filconv_tail [OF False len]
      using False by (simp add: fnu_of_def Let_def)
  qed
qed

subsection \<open>The centre of the filter and the guarded cases\<close>

lemma homogeneous_trapezoid: "homogeneous trapezoid"
proof -
  have "trapezoid (map ((*) k) ys) xs = k * trapezoid ys xs" for k ys xs
    by (induction ys xs rule: trapezoid.induct) (simp_all add: algebra_simps)
  then show ?thesis by (simp add: homogeneous_def)
qed






subsection \<open>Homogeneity of \<^verbatim>\<open>filconv\<close> and the normalization\<close>

lemma integrand1_scale_c: "integrand1 c z = fmul (Some c) (integrand1 1 z)"
proof -
  obtain s l fi where z: "z = (s, l, fi)" by (cases z)
  show ?thesis
    unfolding z by (cases s) (simp_all add: integrand1_def)
qed

lemma integrand1_scale_spec:
  "integrand1 c (fmul (Some k) s, l, fi) = fmul (Some k) (integrand1 c (s, l, fi))"
  by (cases s) (simp_all add: integrand1_def)

lemma integrand1_scale_pair:
  "integrand1 c (fmul (Some k) (fst x), snd x) = fmul (Some k) (integrand1 c x)"
  by (cases x) (simp add: integrand1_scale_spec)

lemma quad_scale:
  assumes "homogeneous S"
  shows "quad S (map (fmul (Some k)) y) x = fmul (Some k) (quad S y x)"
proof (cases "those y")
  case None
  then show ?thesis by (simp add: quad_def those_map_fmul)
next
  case (Some ys)
  then show ?thesis
    using assms by (simp add: quad_def those_map_fmul homogeneous_def)
qed

lemma fdiv_cancel: "c \<noteq> 0 \<Longrightarrow> fdiv (fdiv (fmul (Some c) a) b) (Some c) = fdiv a b"
  by (cases a; cases b) simp_all

lemma fdiv_fdiv_scale: "fdiv (fdiv (fmul (Some k) a) b) d = fmul (Some k) (fdiv (fdiv a b) d)"
  by (cases a; cases b; cases d) simp_all

lemma fnu_of_c:
  assumes "homogeneous S" "c \<noteq> 0"
  shows "fnu_of ip S lfil ffil l0 f0 c = fnu_of ip S lfil ffil l0 f0 1"
proof -
  let ?fi = "map (\<lambda>v. ip v lfil ffil) l0"
  let ?z = "zip (broadcast_to (length l0) f0) (zip l0 ?fi)"
  have eq: "map (integrand1 c) ?z = map (fmul (Some c)) (map (integrand1 1) ?z)"
    by (simp add: integrand1_scale_c [of c])
  have q: "quad S (map (integrand1 c) ?z) l0 = fmul (Some c) (quad S (map (integrand1 1) ?z) l0)"
    unfolding eq by (rule quad_scale [OF assms(1)])
  have one: "fdiv a (Some 1) = a" for a by (cases a) simp_all
  show ?thesis
    unfolding fnu_of_def Let_def q fdiv_cancel [OF assms(2)] one ..
qed

text \<open>
  Claim C8, amended. In exact arithmetic the second return value \<^verbatim>\<open>fnu\<close> of \<^verbatim>\<open>filconv\<close>
  does not depend on the speed-of-light parameter: evaluated over the reals, for every
  nonzero \<^verbatim>\<open>c\<close> the call returns what it returns with the default \<^verbatim>\<open>c = 3e18\<close>, because
  \<^verbatim>\<open>c\<close> multiplies the integrand of \<^verbatim>\<open>I1\<close> and \<^verbatim>\<open>fnu = I1/I2/c\<close> divides by it again.
  The quadrature rule is taken homogeneous. The equation covers the empty spectrum and
  the raised errors as well. In binary64 the multiplication and the division by \<^verbatim>\<open>c\<close>
  each round, and \<^verbatim>\<open>fnu\<close> does depend on \<^verbatim>\<open>c\<close>: the counterexample below computes
  \<^verbatim>\<open>5.909090909090908\<close> for \<^verbatim>\<open>c = 0.1\<close> and \<^verbatim>\<open>5.909090909090909\<close> for the default.
\<close>

theorem filconv_independent_of_c:
  assumes "homogeneous S" and "c \<noteq> 0"
  shows "filconv ip S lfil ffil l0 f0 DIR c = filconv ip S lfil ffil l0 f0 DIR c_default"
proof -
  have "c_default \<noteq> 0" by (simp add: c_default_def)
  then have eq: "fnu_of ip S lfil ffil l0 f0 c = fnu_of ip S lfil ffil l0 f0 c_default"
    using fnu_of_c [OF assms] fnu_of_c [OF assms(1), of c_default] by simp
  show ?thesis by (simp only: filconv_split eq)
qed

theorem filconv_independent_of_c_witness:
  "homogeneous trapezoid \<and> (2 :: real) \<noteq> 0
   \<and> filconv lin_interp trapezoid [1, 2, 3, 4] [1/10, 4/5, 1, 3/10] [2, 3] [Some 5, Some 7] '''' 2
       = filconv lin_interp trapezoid [1, 2, 3, 4] [1/10, 4/5, 1, 3/10] [2, 3] [Some 5, Some 7] '''' c_default
   \<and> filconv lin_interp trapezoid [1, 2, 3, 4] [1/10, 4/5, 1, 3/10] [2, 3] [Some 5, Some 7] '''' 2
       = Inr (5 / 2, Some (65 / 11))"
proof -
  have v: "filconv lin_interp trapezoid [1, 2, 3, 4] [1/10, 4/5, 1, 3/10] [2, 3] [Some 5, Some 7] '''' 2
       = Inr (5 / 2, Some (65 / 11))"
    by (simp add: filconv_def np_max_def np_min_def bool_index_def np_interp_def
        np_broadcast2_def simpson_def)
  have c: "(2 :: real) \<noteq> 0" by simp
  from filconv_independent_of_c [OF homogeneous_trapezoid c] v homogeneous_trapezoid c
  show ?thesis by blast
qed

text \<open>
  Claim C8 as written fails in binary64. For the filter curve \<^verbatim>\<open>[1, 2, 3, 4]\<close>,
  \<^verbatim>\<open>[0.1, 0.8, 1, 0.3]\<close> and the spectrum \<^verbatim>\<open>[2, 3]\<close>, \<^verbatim>\<open>[5, 7]\<close>, the call with
  \<^verbatim>\<open>c = 0.1\<close> returns \<^verbatim>\<open>fnu = 5.909090909090908\<close> and the call with the default
  \<^verbatim>\<open>c = 3e18\<close> returns \<^verbatim>\<open>fnu = 5.909090909090909\<close>.
\<close>

theorem filconv_independent_of_c_counterexample:
  "\<not> feq64 (b64_of_frac 1 10) pzero
   \<and> filconv64 lin_interp64 trapezoid64
        [b64_of_frac 1 1, b64_of_frac 2 1, b64_of_frac 3 1, b64_of_frac 4 1]
        [b64_of_frac 1 10, b64_of_frac 8 10, b64_of_frac 1 1, b64_of_frac 3 10]
        [b64_of_frac 2 1, b64_of_frac 3 1] [b64_of_frac 5 1, b64_of_frac 7 1] DIR_default
        (b64_of_frac 1 10)
       = Inr (Finite False 5629499534213120 (- 51), Finite False 6653044904070050 (- 50))
   \<and> filconv64 lin_interp64 trapezoid64
        [b64_of_frac 1 1, b64_of_frac 2 1, b64_of_frac 3 1, b64_of_frac 4 1]
        [b64_of_frac 1 10, b64_of_frac 8 10, b64_of_frac 1 1, b64_of_frac 3 10]
        [b64_of_frac 2 1, b64_of_frac 3 1] [b64_of_frac 5 1, b64_of_frac 7 1] DIR_default
        c_default64
       = Inr (Finite False 5629499534213120 (- 51), Finite False 6653044904070051 (- 50))"
  unfolding literals
  by (simp add: filconv64_eval b64_eval)

lemma broadcast_to_map:
  assumes "length a = n \<or> length a = 1"
  shows "broadcast_to n (map g a) = map g (broadcast_to n a)"
proof (cases "length a = n")
  case True
  then show ?thesis by (simp add: broadcast_to_def)
next
  case False
  with assms have "a \<noteq> []" by auto
  then show ?thesis using False by (simp add: broadcast_to_def hd_map)
qed

lemma fnu_of_scale:
  assumes "homogeneous S" "length f0 = length l0 \<or> length f0 = 1"
  shows "fnu_of ip S lfil ffil l0 (map (fmul (Some k)) f0) c = fmul (Some k) (fnu_of ip S lfil ffil l0 f0 c)"
proof -
  let ?fi = "map (\<lambda>v. ip v lfil ffil) l0"
  let ?b = "broadcast_to (length l0) f0"
  have eq: "map (integrand1 c) (zip (map (fmul (Some k)) ?b) (zip l0 ?fi))
          = map (fmul (Some k)) (map (integrand1 c) (zip ?b (zip l0 ?fi)))"
    by (simp add: zip_map1 case_prod_unfold integrand1_scale_pair)
  have q: "quad S (map (integrand1 c) (zip (map (fmul (Some k)) ?b) (zip l0 ?fi))) l0
          = fmul (Some k) (quad S (map (integrand1 c) (zip ?b (zip l0 ?fi))) l0)"
    unfolding eq by (rule quad_scale [OF assms(1)])
  show ?thesis
    unfolding fnu_of_def Let_def length_map broadcast_to_map [OF assms(2)] q fdiv_fdiv_scale ..
qed

lemma filconv_scale:
  assumes "homogeneous S" and "filconv ip S lfil ffil l0 f0 DIR c = Inr (lcen, fnu)"
  shows "filconv ip S lfil ffil l0 (map (fmul (Some k)) f0) DIR c = Inr (lcen, fmul (Some k) fnu)"
proof (cases "fwhm_center lfil ffil")
  case (Inl err)
  then show ?thesis using assms(2) by (simp add: filconv_split)
next
  case (Inr lc)
  show ?thesis
  proof (cases "l0 = []")
    case True
    then show ?thesis using assms(2) Inr by (auto simp: filconv_split)
  next
    case False
    then have len: "length f0 = length l0 \<or> length f0 = 1"
      using assms(2) Inr by (auto simp: filconv_split split: if_splits)
    then show ?thesis
      using assms(2) Inr False fnu_of_scale [OF assms(1) len]
      by (auto simp: filconv_split)
  qed
qed

lemma np_broadcast2_singleton: "np_broadcast2 f a [y] = Inr (map (\<lambda>x. f x y) a)"
proof (cases a)
  case Nil
  then show ?thesis by (simp add: np_broadcast2_def)
next
  case (Cons x r)
  then show ?thesis by (cases r) (simp_all add: np_broadcast2_def)
qed

text \<open>
  Claim C3, amended. In exact arithmetic, filter-convolution normalization round-trips to
  the catalog photometry. With \<^verbatim>\<open>l0 = wave[con]\<close> and \<^verbatim>\<open>f0 = flux_combine[con]\<close>, when
  \<^verbatim>\<open>filconv\<close>, evaluated over the reals, returns \<^verbatim>\<open>(lcen, fnu)\<close>: scaling the flux by
  \<open>k\<close> returns the same \<^verbatim>\<open>lcen\<close> and \<open>k\<close> times \<^verbatim>\<open>fnu\<close>; and when \<^verbatim>\<open>fnu\<close> is finite
  and not zero, convolving the normalized spectrum \<^verbatim>\<open>(flux_combine * Cnorm)[con]\<close>,
  \<^verbatim>\<open>Cnorm = fcat / fnu\<close>, with the same filter returns the catalog flux \<open>fcat\<close>. The
  quadrature rule is taken homogeneous. In binary64 the division \<^verbatim>\<open>fcat / fnu\<close>, the
  multiplication by \<^verbatim>\<open>Cnorm\<close> and the second convolution each round, and the round trip
  does not return \<open>fcat\<close> itself: the counterexample below computes \<^verbatim>\<open>13.000000000000002\<close>
  for the catalog flux \<^verbatim>\<open>13.0\<close>.
\<close>

theorem filconv_normalization_roundtrip:
  assumes "homogeneous S"
    and "bool_index wave con = Inr l0" and "bool_index flux_combine con = Inr f0"
    and "filconv ip S lfil ffil l0 f0 DIR c = Inr (lcen, fnu)"
  shows "(\<forall>k. filconv ip S lfil ffil l0 (map (fmul (Some k)) f0) DIR c = Inr (lcen, fmul (Some k) fnu))
       \<and> (\<forall>v fcat. fnu = Some v \<and> v \<noteq> 0 \<longrightarrow>
            (\<exists>nflux nf0. np_broadcast2 fmul flux_combine [fdiv (Some fcat) fnu] = Inr nflux
                 \<and> bool_index nflux con = Inr nf0
                 \<and> filconv ip S lfil ffil l0 nf0 DIR c = Inr (lcen, Some fcat)))"
proof (intro conjI allI impI)
  fix k
  show "filconv ip S lfil ffil l0 (map (fmul (Some k)) f0) DIR c = Inr (lcen, fmul (Some k) fnu)"
    using assms(1,4) by (rule filconv_scale)
next
  fix v fcat
  assume v: "fnu = Some v \<and> v \<noteq> 0"
  let ?cn = "fcat / v"
  let ?nflux = "map (\<lambda>x. fmul x (Some ?cn)) flux_combine"
  have nf: "?nflux = map (fmul (Some ?cn)) flux_combine"
    by (simp add: fmul_commute)
  have b: "np_broadcast2 fmul flux_combine [fdiv (Some fcat) fnu] = Inr ?nflux"
    using v by (simp add: np_broadcast2_singleton)
  have m: "bool_index ?nflux con = Inr (map (fmul (Some ?cn)) f0)"
    unfolding nf bool_index_map assms(3) by simp
  have "filconv ip S lfil ffil l0 (map (fmul (Some ?cn)) f0) DIR c = Inr (lcen, fmul (Some ?cn) fnu)"
    using assms(1,4) by (rule filconv_scale)
  also have "fmul (Some ?cn) fnu = Some fcat"
    using v by simp
  finally show "\<exists>nflux nf0. np_broadcast2 fmul flux_combine [fdiv (Some fcat) fnu] = Inr nflux
                 \<and> bool_index nflux con = Inr nf0
                 \<and> filconv ip S lfil ffil l0 nf0 DIR c = Inr (lcen, Some fcat)"
    using b m by blast
qed

theorem filconv_normalization_roundtrip_witness:
  "homogeneous trapezoid
   \<and> bool_index [1, 2, 3, 4 :: real] [False, True, True, False] = Inr [2, 3]
   \<and> bool_index [Some 1, Some 5, Some 7, Some 2 :: f64] [False, True, True, False] = Inr [Some 5, Some 7]
   \<and> filconv lin_interp trapezoid [1, 2, 3, 4] [1/10, 4/5, 1, 3/10] [2, 3] [Some 5, Some 7] '''' 2
       = Inr (5 / 2, Some (65 / 11))
   \<and> filconv lin_interp trapezoid [1, 2, 3, 4] [1/10, 4/5, 1, 3/10] [2, 3]
        (map (fmul (Some 3)) [Some 5, Some 7]) '''' 2 = Inr (5 / 2, Some (195 / 11))
   \<and> (\<exists>nflux nf0.
         np_broadcast2 fmul [Some 1, Some 5, Some 7, Some 2] [fdiv (Some 13) (Some (65 / 11))] = Inr nflux
         \<and> bool_index nflux [False, True, True, False] = Inr nf0
         \<and> filconv lin_interp trapezoid [1, 2, 3, 4] [1/10, 4/5, 1, 3/10] [2, 3] nf0 '''' 2
             = Inr (5 / 2, Some 13))"
proof -
  have h2: "bool_index [1, 2, 3, 4 :: real] [False, True, True, False] = Inr [2, 3]"
    by (simp add: bool_index_def)
  have h3: "bool_index [Some 1, Some 5, Some 7, Some 2 :: f64] [False, True, True, False]
              = Inr [Some 5, Some 7]"
    by (simp add: bool_index_def)
  have h4: "filconv lin_interp trapezoid [1, 2, 3, 4] [1/10, 4/5, 1, 3/10] [2, 3] [Some 5, Some 7] '''' 2
       = Inr (5 / 2, Some (65 / 11))"
    by (simp add: filconv_def np_max_def np_min_def bool_index_def np_interp_def
        np_broadcast2_def simpson_def)
  note r = filconv_normalization_roundtrip [OF homogeneous_trapezoid h2 h3 h4]
  have k: "filconv lin_interp trapezoid [1, 2, 3, 4] [1/10, 4/5, 1, 3/10] [2, 3]
        (map (fmul (Some 3)) [Some 5, Some 7]) '''' 2 = Inr (5 / 2, Some (195 / 11))"
    using r [THEN conjunct1, THEN spec, of 3] by simp
  have n: "\<exists>nflux nf0.
         np_broadcast2 fmul [Some 1, Some 5, Some 7, Some 2] [fdiv (Some 13) (Some (65 / 11))] = Inr nflux
         \<and> bool_index nflux [False, True, True, False] = Inr nf0
         \<and> filconv lin_interp trapezoid [1, 2, 3, 4] [1/10, 4/5, 1, 3/10] [2, 3] nf0 '''' 2
             = Inr (5 / 2, Some 13)"
    using r [THEN conjunct2, THEN spec, THEN spec, of "65 / 11" 13] by simp
  from homogeneous_trapezoid h2 h3 h4 k n show ?thesis by blast
qed

text \<open>
  Claim C3 as written fails in binary64. For the filter curve \<^verbatim>\<open>[1, 2, 3, 4]\<close>,
  \<^verbatim>\<open>[0.1, 0.8, 1, 0.3]\<close> and the spectrum \<^verbatim>\<open>[2, 3]\<close>, \<^verbatim>\<open>[5, 7]\<close>, \<^verbatim>\<open>filconv\<close> with
  the default \<^verbatim>\<open>c = 3e18\<close> returns \<^verbatim>\<open>fnu = 5.909090909090909\<close>; with the catalog flux
  \<^verbatim>\<open>2.5\<close> the factor is \<^verbatim>\<open>Cnorm = 2.5 / fnu\<close>, and \<^verbatim>\<open>filconv\<close> of the normalized
  spectrum returns \<^verbatim>\<open>2.4999999999999996\<close>, not \<^verbatim>\<open>2.5\<close>. With \<^verbatim>\<open>c = 2.0\<close> and the
  catalog flux \<^verbatim>\<open>13.0\<close> it returns \<^verbatim>\<open>13.000000000000002\<close>, not \<^verbatim>\<open>13.0\<close>.
\<close>

theorem filconv_normalization_roundtrip_counterexample:
  "filconv64 lin_interp64 trapezoid64
        [b64_of_frac 1 1, b64_of_frac 2 1, b64_of_frac 3 1, b64_of_frac 4 1]
        [b64_of_frac 1 10, b64_of_frac 8 10, b64_of_frac 1 1, b64_of_frac 3 10]
        [b64_of_frac 2 1, b64_of_frac 3 1] [b64_of_frac 5 1, b64_of_frac 7 1] DIR_default
        c_default64
       = Inr (Finite False 5629499534213120 (- 51), Finite False 6653044904070051 (- 50))
   \<and> fdiv64 (b64_of_frac 5 2) (Finite False 6653044904070051 (- 50))
       = Finite False 7621476292473147 (- 54)
   \<and> filconv64 lin_interp64 trapezoid64
        [b64_of_frac 1 1, b64_of_frac 2 1, b64_of_frac 3 1, b64_of_frac 4 1]
        [b64_of_frac 1 10, b64_of_frac 8 10, b64_of_frac 1 1, b64_of_frac 3 10]
        [b64_of_frac 2 1, b64_of_frac 3 1]
        (map (\<lambda>x. fmul64 x (Finite False 7621476292473147 (- 54)))
             [b64_of_frac 5 1, b64_of_frac 7 1]) DIR_default c_default64
       = Inr (Finite False 5629499534213120 (- 51), Finite False 5629499534213119 (- 51))
   \<and> \<not> feq64 (Finite False 5629499534213119 (- 51)) (b64_of_frac 5 2)
   \<and> filconv64 lin_interp64 trapezoid64
        [b64_of_frac 1 1, b64_of_frac 2 1, b64_of_frac 3 1, b64_of_frac 4 1]
        [b64_of_frac 1 10, b64_of_frac 8 10, b64_of_frac 1 1, b64_of_frac 3 10]
        [b64_of_frac 2 1, b64_of_frac 3 1] [b64_of_frac 5 1, b64_of_frac 7 1] DIR_default two64
       = Inr (Finite False 5629499534213120 (- 51), Finite False 6653044904070051 (- 50))
   \<and> fdiv64 (b64_of_frac 13 1) (Finite False 6653044904070051 (- 50))
       = Finite False 4953959590107546 (- 51)
   \<and> filconv64 lin_interp64 trapezoid64
        [b64_of_frac 1 1, b64_of_frac 2 1, b64_of_frac 3 1, b64_of_frac 4 1]
        [b64_of_frac 1 10, b64_of_frac 8 10, b64_of_frac 1 1, b64_of_frac 3 10]
        [b64_of_frac 2 1, b64_of_frac 3 1]
        (map (\<lambda>x. fmul64 x (Finite False 4953959590107546 (- 51)))
             [b64_of_frac 5 1, b64_of_frac 7 1]) DIR_default two64
       = Inr (Finite False 5629499534213120 (- 51), Finite False 7318349394477057 (- 49))
   \<and> \<not> feq64 (Finite False 7318349394477057 (- 49)) (b64_of_frac 13 1)"
  unfolding literals
  by (simp add: filconv64_eval b64_eval)

subsection \<open>The weighted average\<close>

lemma update_at_boundary:
  assumes "n < length a"
  shows "(map f [0..<n] @ drop n a)[n := v] = map f [0..<n] @ v # drop (Suc n) a"
proof -
  have "drop n a = a ! n # drop (Suc n) a"
    using assms by (simp add: Cons_nth_drop_Suc)
  then show ?thesis by (simp add: list_update_append)
qed

lemma fold_update_pair:
  assumes "n \<le> length a" "n \<le> length b"
  shows "fold (\<lambda>i (xs, ys). (xs[i := f i], ys[i := g i])) [0..<n] (a, b)
         = (map f [0..<n] @ drop n a, map g [0..<n] @ drop n b)"
  using assms
proof (induction n)
  case 0
  then show ?case by simp
next
  case (Suc n)
  then show ?case by (simp add: update_at_boundary)
qed

lemma combine_eq:
  "combine wave flux flux_err =
     (map (flux_combine_at flux flux_err) [0..<length wave],
      map (flux_err_combine_at flux_err) [0..<length wave])"
  unfolding combine_def by (subst fold_update_pair) simp_all

lemma column_upt: "column a ii = map (\<lambda>d. a ! d ! ii) [0..<length a]"
  unfolding column_def by (rule nth_equalityI) simp_all

lemma map2_upt: "map2 g (map a [0..<n]) (map b [0..<n]) = map (\<lambda>d. g (a d) (b d)) [0..<n]"
  by (rule nth_equalityI) simp_all

lemma sum_list_upt_sum: "sum_list (map f [0..<n]) = (\<Sum>d<n. f d)"
  by (simp add: interv_sum_list_conv_sum_set_nat atLeast0LessThan)

lemma np_sum_Some: "np_sum (map (\<lambda>d. Some (f d)) [0..<n]) = Some (\<Sum>d<n. f d)"
proof -
  have "map (\<lambda>d. Some (f d)) [0..<n] = map Some (map f [0..<n])" by simp
  then show ?thesis by (simp only: np_sum_def those_map_Some option.map sum_list_upt_sum)
qed

lemma flux_combine_at_finite:
  assumes "length flux = ndither" "length flux_err = ndither" "0 < ndither"
    and "\<forall>d<ndither. flux_err ! d ! ii = Some (e d) \<and> e d \<noteq> 0"
  shows "flux_combine_at flux flux_err ii =
           Some ((\<Sum>d<ndither. flux ! d ! ii / (e d) ^ 2) / (\<Sum>d<ndither. 1 / (e d) ^ 2))"
proof -
  have ecol: "column flux_err ii = map (\<lambda>d. Some (e d)) [0..<ndither]"
    using assms(2,4) by (simp add: column_upt)
  have fcol: "column flux ii = map (\<lambda>d. flux ! d ! ii) [0..<ndither]"
    using assms(1) by (simp add: column_upt)
  have num: "map2 (\<lambda>f e. fdiv (Some (f * 1)) (fmul e e)) (column flux ii) (column flux_err ii)
               = map (\<lambda>d. Some (flux ! d ! ii / (e d) ^ 2)) [0..<ndither]"
    unfolding ecol fcol map2_upt using assms(4) by (simp add: power2_eq_square)
  have den: "map (\<lambda>e. fdiv (Some 1) (fmul e e)) (column flux_err ii)
               = map (\<lambda>d. Some (1 / (e d) ^ 2)) [0..<ndither]"
    unfolding ecol using assms(4) by (simp add: power2_eq_square)
  have "0 < (\<Sum>d<ndither. 1 / (e d) ^ 2)"
    using assms(3,4) by (intro sum_pos) auto
  then show ?thesis
    unfolding flux_combine_at_def num den np_sum_Some by simp
qed

lemma combine_weighted_average_exact:
  assumes "has_shape flux ndither (length wave)" and "has_shape flux_err ndither (length wave)"
    and "0 < ndither" and "ii < length wave"
    and "\<forall>d<ndither. flux_err ! d ! ii = Some (e d) \<and> e d \<noteq> 0"
  shows "fst (combine wave flux flux_err) ! ii =
           Some ((\<Sum>d<ndither. flux ! d ! ii / (e d) ^ 2) / (\<Sum>d<ndither. 1 / (e d) ^ 2))"
  using assms flux_combine_at_finite [of flux ndither flux_err ii e]
  by (simp add: combine_eq has_shape_def)

text \<open>
  Claim C1, amended. In exact arithmetic the combined spectrum is the inverse-variance
  weighted average of the per-dither spectra: for every wavelength index \<open>ii\<close> at which
  every \<^verbatim>\<open>flux_err[d, ii]\<close> is a finite number other than zero, the expression that the
  cell assigns to \<^verbatim>\<open>flux_combine[ii]\<close>, evaluated over the reals, is the sum over the
  dithers of \<^verbatim>\<open>flux[d, ii] / flux_err[d, ii]^2\<close> divided by the sum of
  \<^verbatim>\<open>1 / flux_err[d, ii]^2\<close>. The arrays are rectangular, with one row per dither and
  at least one dither. In binary64, where every operation of the expression rounds, the
  guard is on the squares: \<^verbatim>\<open>flux_combine[ii]\<close> is nan whenever
  \<^verbatim>\<open>flux_err[k, ii]**2\<close> is zero for some dither \<open>k\<close>, which a \<^verbatim>\<open>flux_err[k, ii]\<close>
  other than zero reaches by underflow.
\<close>

theorem flux_combine_weighted_average:
  "(has_shape flux ndither (length wave) \<and> has_shape flux_err ndither (length wave)
      \<and> 0 < ndither \<and> ii < length wave
      \<and> (\<forall>d<ndither. flux_err ! d ! ii = Some (e d) \<and> e d \<noteq> 0)
     \<longrightarrow> fst (combine wave flux flux_err) ! ii =
           Some ((\<Sum>d<ndither. flux ! d ! ii / (e d) ^ 2) / (\<Sum>d<ndither. 1 / (e d) ^ 2)))
   \<and> (has_shape flux64 ndither (length wave) \<and> has_shape flux_err64 ndither (length wave)
      \<and> ii < length wave \<and> k < ndither
      \<and> feq64 (fmul64 (flux_err64 ! k ! ii) (flux_err64 ! k ! ii)) pzero
     \<longrightarrow> flux_combine_at64 flux64 flux_err64 ii = NaN)"
proof (intro conjI impI)
  assume "has_shape flux ndither (length wave) \<and> has_shape flux_err ndither (length wave)
      \<and> 0 < ndither \<and> ii < length wave
      \<and> (\<forall>d<ndither. flux_err ! d ! ii = Some (e d) \<and> e d \<noteq> 0)"
  then show "fst (combine wave flux flux_err) ! ii =
           Some ((\<Sum>d<ndither. flux ! d ! ii / (e d) ^ 2) / (\<Sum>d<ndither. 1 / (e d) ^ 2))"
    using combine_weighted_average_exact [of flux ndither wave flux_err ii e] by blast
next
  assume h: "has_shape flux64 ndither (length wave) \<and> has_shape flux_err64 ndither (length wave)
      \<and> ii < length wave \<and> k < ndither
      \<and> feq64 (fmul64 (flux_err64 ! k ! ii) (flux_err64 ! k ! ii)) pzero"
  then have "length flux64 = length flux_err64" and "k < length flux_err64"
    by (simp_all add: has_shape_def)
  then show "flux_combine_at64 flux64 flux_err64 ii = NaN"
    using h by (intro flux_combine_at64_zero_square [of flux64 flux_err64 k ii]) simp_all
qed

theorem flux_combine_weighted_average_witness:
  "has_shape [[1, 2], [3, 4 :: real]] 2 (length [1, 2 :: real])
   \<and> has_shape [[Some 1, Some 2], [Some 2, Some 1 :: f64]] 2 (length [1, 2 :: real])
   \<and> (0 :: nat) < 2 \<and> 0 < length [1, 2 :: real]
   \<and> [[Some 1, Some 2], [Some 2, Some 1 :: f64]] ! 0 ! 0 = Some ([1, 2] ! 0) \<and> [1, 2 :: real] ! 0 \<noteq> 0
   \<and> [[Some 1, Some 2], [Some 2, Some 1 :: f64]] ! 1 ! 0 = Some ([1, 2] ! 1) \<and> [1, 2 :: real] ! 1 \<noteq> 0
   \<and> fst (combine [1, 2] [[1, 2], [3, 4]] [[Some 1, Some 2], [Some 2, Some 1]]) ! 0 = Some (7 / 5)
   \<and> has_shape [[one64, two64], [two64, one64]] 2 (length [1, 2 :: real])
   \<and> has_shape [[one64, one64], [Finite False (2 ^ 52) (- 600), one64]] 2 (length [1, 2 :: real])
   \<and> (1 :: nat) < 2
   \<and> \<not> feq64 ([[one64, one64], [Finite False (2 ^ 52) (- 600), one64]] ! 1 ! 0) pzero
   \<and> feq64 (fmul64 ([[one64, one64], [Finite False (2 ^ 52) (- 600), one64]] ! 1 ! 0)
                    ([[one64, one64], [Finite False (2 ^ 52) (- 600), one64]] ! 1 ! 0)) pzero
   \<and> flux_combine_at64 [[one64, two64], [two64, one64]]
         [[one64, one64], [Finite False (2 ^ 52) (- 600), one64]] 0 = NaN"
proof -
  have s1: "has_shape [[1, 2], [3, 4 :: real]] 2 (length [1, 2 :: real])"
    by (simp add: has_shape_def)
  have s2: "has_shape [[Some 1, Some 2], [Some 2, Some 1 :: f64]] 2 (length [1, 2 :: real])"
    by (simp add: has_shape_def)
  have e: "\<forall>d<2. [[Some 1, Some 2], [Some 2, Some 1 :: f64]] ! d ! 0 = Some ([1, 2] ! d)
             \<and> [1, 2 :: real] ! d \<noteq> 0"
    by (simp add: less_2_cases_iff)
  have s3: "has_shape [[one64, two64], [two64, one64]] 2 (length [1, 2 :: real])"
    by (simp add: has_shape_def)
  have s4: "has_shape [[one64, one64], [Finite False (2 ^ 52) (- 600), one64]] 2 (length [1, 2 :: real])"
    by (simp add: has_shape_def)
  have nz: "\<not> feq64 ([[one64, one64], [Finite False (2 ^ 52) (- 600), one64]] ! 1 ! 0) pzero"
    by (simp add: b64_eval)
  have z: "feq64 (fmul64 ([[one64, one64], [Finite False (2 ^ 52) (- 600), one64]] ! 1 ! 0)
                         ([[one64, one64], [Finite False (2 ^ 52) (- 600), one64]] ! 1 ! 0)) pzero"
    by (simp add: b64_eval)
  note th = flux_combine_weighted_average [of "[[1, 2], [3, 4]]" 2 "[1, 2]"
      "[[Some 1, Some 2], [Some 2, Some 1]]" 0 "\<lambda>d. [1, 2] ! d"
      "[[one64, two64], [two64, one64]]"
      "[[one64, one64], [Finite False (2 ^ 52) (- 600), one64]]" 1]
  have r: "fst (combine [1, 2] [[1, 2], [3, 4]] [[Some 1, Some 2], [Some 2, Some 1]]) ! 0 = Some (7 / 5)"
    using th [THEN conjunct1] s1 s2 e by (simp add: numeral_2_eq_2)
  have f: "flux_combine_at64 [[one64, two64], [two64, one64]]
             [[one64, one64], [Finite False (2 ^ 52) (- 600), one64]] 0 = NaN"
    using th [THEN conjunct2] s3 s4 z by simp
  from s1 s2 s3 s4 r nz z f show ?thesis by simp
qed

text \<open>
  Claim C1 as written fails in binary64. With two dithers of flux \<^verbatim>\<open>2.0\<close> and uncertainty
  \<open>2 ^ - 600\<close>, which is not zero, the square of the uncertainty underflows to zero, both
  sums are infinite and the cell stores nan, where the weighted average is \<open>2\<close>.
\<close>

theorem flux_combine_weighted_average_counterexample:
  "flt64 pzero (Finite False (2 ^ 52) (- 652))
   \<and> flux_combine_at64 [[two64], [two64]]
         [[Finite False (2 ^ 52) (- 652)], [Finite False (2 ^ 52) (- 652)]] 0 = NaN
   \<and> flux_combine_at [[2], [2]] [[Some (1 / 2 ^ 600)], [Some (1 / 2 ^ 600)]] 0 = Some 2"
  by (simp add: flux_combine_at64_def flux_combine_at_def column_def np_sum_def b64_eval)

lemma weighted_average_bounds:
  fixes w f :: "nat \<Rightarrow> real"
  assumes "0 < n" "\<forall>d<n. 0 < w d"
  shows "Min (f ` {..<n}) \<le> (\<Sum>d<n. f d * w d) / (\<Sum>d<n. w d)"
    and "(\<Sum>d<n. f d * w d) / (\<Sum>d<n. w d) \<le> Max (f ` {..<n})"
proof -
  have ne: "{..<n} \<noteq> {}" using assms(1) by auto
  have W: "0 < (\<Sum>d<n. w d)"
    using assms ne by (intro sum_pos) auto
  have lo: "Min (f ` {..<n}) * (\<Sum>d<n. w d) \<le> (\<Sum>d<n. f d * w d)"
    unfolding sum_distrib_left
    by (intro sum_mono mult_right_mono) (use assms in \<open>auto simp: less_imp_le\<close>)
  have hi: "(\<Sum>d<n. f d * w d) \<le> Max (f ` {..<n}) * (\<Sum>d<n. w d)"
    unfolding sum_distrib_left
    by (intro sum_mono mult_right_mono) (use assms in \<open>auto simp: less_imp_le\<close>)
  show "Min (f ` {..<n}) \<le> (\<Sum>d<n. f d * w d) / (\<Sum>d<n. w d)"
    using lo W by (simp add: pos_le_divide_eq)
  show "(\<Sum>d<n. f d * w d) / (\<Sum>d<n. w d) \<le> Max (f ` {..<n})"
    using hi W by (simp add: pos_divide_le_eq)
qed

text \<open>
  Claim C10, amended. In exact arithmetic the combined flux is a convex combination of
  the per-dither fluxes: for every wavelength index \<open>ii\<close> at which every
  \<^verbatim>\<open>flux_err[d, ii]\<close> is positive and finite, the expression that the cell assigns to
  \<^verbatim>\<open>flux_combine[ii]\<close>, evaluated over the reals, is finite and lies between the minimum
  and the maximum over the dithers of \<^verbatim>\<open>flux[d, ii]\<close>. In binary64 the stored value can
  fall outside this interval by rounding: the counterexample below computes
  \<^verbatim>\<open>0.09999999999999999\<close> from two dithers of flux \<^verbatim>\<open>0.1\<close> and uncertainty \<^verbatim>\<open>0.1\<close>.
\<close>

theorem flux_combine_convex:
  assumes "has_shape flux ndither (length wave)" and "has_shape flux_err ndither (length wave)"
    and "0 < ndither" and "ii < length wave"
    and "\<forall>d<ndither. flux_err ! d ! ii = Some (e d) \<and> 0 < e d"
  shows "\<exists>v. fst (combine wave flux flux_err) ! ii = Some v
             \<and> Min ((\<lambda>d. flux ! d ! ii) ` {..<ndither}) \<le> v
             \<and> v \<le> Max ((\<lambda>d. flux ! d ! ii) ` {..<ndither})"
proof -
  have nz: "\<forall>d<ndither. flux_err ! d ! ii = Some (e d) \<and> e d \<noteq> 0"
    using assms(5) by auto
  have w: "\<forall>d<ndither. 0 < 1 / (e d) ^ 2"
    using assms(5) by auto
  have "fst (combine wave flux flux_err) ! ii =
      Some ((\<Sum>d<ndither. flux ! d ! ii / (e d) ^ 2) / (\<Sum>d<ndither. 1 / (e d) ^ 2))"
    using assms(1,2,4) flux_combine_at_finite [OF _ _ assms(3) nz, of flux]
    by (simp add: combine_eq has_shape_def)
  then have eq: "fst (combine wave flux flux_err) ! ii =
      Some ((\<Sum>d<ndither. flux ! d ! ii * (1 / (e d) ^ 2)) / (\<Sum>d<ndither. 1 / (e d) ^ 2))"
    by simp
  show ?thesis
    unfolding eq
    using weighted_average_bounds [OF assms(3) w, of "\<lambda>d. flux ! d ! ii"] by simp
qed

theorem flux_combine_convex_witness:
  "has_shape [[1, 2], [3, 4 :: real]] 2 (length [1, 2 :: real])
   \<and> has_shape [[Some 1, Some 2], [Some 2, Some 1 :: f64]] 2 (length [1, 2 :: real])
   \<and> (0 :: nat) < 2 \<and> 0 < length [1, 2 :: real]
   \<and> [[Some 1, Some 2], [Some 2, Some 1 :: f64]] ! 0 ! 0 = Some ([1, 2] ! 0) \<and> 0 < [1, 2 :: real] ! 0
   \<and> [[Some 1, Some 2], [Some 2, Some 1 :: f64]] ! 1 ! 0 = Some ([1, 2] ! 1) \<and> 0 < [1, 2 :: real] ! 1
   \<and> (\<exists>v. fst (combine [1, 2] [[1, 2], [3, 4]] [[Some 1, Some 2], [Some 2, Some 1]]) ! 0 = Some v
          \<and> 1 \<le> v \<and> v \<le> 3)"
proof -
  have s1: "has_shape [[1, 2], [3, 4 :: real]] 2 (length [1, 2 :: real])"
    by (simp add: has_shape_def)
  have s2: "has_shape [[Some 1, Some 2], [Some 2, Some 1 :: f64]] 2 (length [1, 2 :: real])"
    by (simp add: has_shape_def)
  have e: "\<forall>d<2. [[Some 1, Some 2], [Some 2, Some 1 :: f64]] ! d ! 0 = Some ([1, 2] ! d)
             \<and> 0 < [1, 2 :: real] ! d"
    by (simp add: less_2_cases_iff)
  have "\<exists>v. fst (combine [1, 2] [[1, 2], [3, 4]] [[Some 1, Some 2], [Some 2, Some 1]]) ! 0 = Some v
          \<and> 1 \<le> v \<and> v \<le> 3"
    using flux_combine_convex [OF s1 s2 _ _ e]
    by (simp add: numeral_2_eq_2 lessThan_Suc)
  with s1 s2 show ?thesis by simp
qed

text \<open>
  Claim C10 as written fails in binary64. With two dithers of flux \<^verbatim>\<open>0.1\<close> and uncertainty
  \<^verbatim>\<open>0.1\<close>, which is positive and finite, the cell stores \<^verbatim>\<open>0.09999999999999999\<close>, the
  binary64 number just below \<^verbatim>\<open>0.1\<close>, which is the minimum of the fluxes.
\<close>

theorem flux_combine_convex_counterexample:
  "flt64 pzero (b64_of_frac 1 10)
   \<and> flux_combine_at64 [[b64_of_frac 1 10], [b64_of_frac 1 10]]
         [[b64_of_frac 1 10], [b64_of_frac 1 10]] 0 = Finite False 7205759403792793 (- 56)
   \<and> np_min64 (column [[b64_of_frac 1 10], [b64_of_frac 1 10]] 0) = Inr (b64_of_frac 1 10)
   \<and> flt64 (Finite False 7205759403792793 (- 56)) (b64_of_frac 1 10)"
  unfolding literals
  by (simp add: flux_combine_at64_def column_def b64_eval)

subsection \<open>The loop over the dithers\<close>

lemma load_loop_append:
  "load_loop ip fs filt ndither (xs @ ys) st =
     bind_err (load_loop ip fs filt ndither xs st) (load_loop ip fs filt ndither ys)"
  by (induction xs arbitrary: st) (simp_all split: sum.splits)

lemma col_lengths [simp]:
  "length (col_wavelength fd) = length fd" "length (col_flux fd) = length fd"
  "length (col_uncertainty fd) = length fd"
  by (simp_all add: col_wavelength_def col_flux_def col_uncertainty_def)

lemma set_row_ok:
  assumes "d < length a" "length v = ncols"
  shows "set_row a ncols d v = Inr (a[d := v])"
  using assms by (simp add: set_row_def)

lemma row_lengths [simp]:
  "length (flux_row ip tab d) = length (tab 0)" "length (flux_err_row ip tab d) = length (tab 0)"
  by (simp_all add: flux_row_def flux_err_row_def)

lemma load_step_first:
  assumes "fs (dither_path filt 0) = Some (tab 0)" "0 < ndither"
  shows "load_step ip fs filt ndither 0 st =
     Inr (Some (col_wavelength (tab 0),
                map (flux_row ip tab) [0..<1] @ drop 1 (replicate ndither (replicate (length (tab 0)) 0)),
                map (flux_err_row ip tab) [0..<1] @ drop 1 (replicate ndither (replicate (length (tab 0)) (Some 0)))))"
proof -
  have u: "(replicate ndither z)[0 := v] = v # replicate (ndither - 1) z" for v z :: "'a"
    using assms(2) by (cases ndither) simp_all
  show ?thesis
    using assms
    by (simp add: load_step_def fits_open_def Let_def set_row_ok u flux_row_def flux_err_row_def)
qed

lemma load_step_next:
  assumes "fs (dither_path filt m) = Some (tab m)" "0 < m" "m < ndither" "tab m \<noteq> []"
    and "length a = ndither" "length b = ndither"
  shows "load_step ip fs filt ndither m
           (Some (col_wavelength (tab 0), map (flux_row ip tab) [0..<m] @ drop m a,
                  map (flux_err_row ip tab) [0..<m] @ drop m b)) =
     Inr (Some (col_wavelength (tab 0),
                map (flux_row ip tab) [0..<Suc m] @ drop (Suc m) a,
                map (flux_err_row ip tab) [0..<Suc m] @ drop (Suc m) b))"
proof -
  let ?wave = "col_wavelength (tab 0)"
  have i1: "np_interp ip ?wave (col_wavelength (tab m)) (col_flux (tab m)) = Inr (flux_row ip tab m)"
    using assms(2,4) by (simp add: np_interp_def flux_row_def col_wavelength_def)
  have i2: "np_interp ip ?wave (col_wavelength (tab m)) (map (\<lambda>e. e ^ 2) (col_uncertainty (tab m)))
              = Inr (map (\<lambda>v. ip v (col_wavelength (tab m)) (map (\<lambda>e. e ^ 2) (col_uncertainty (tab m)))) ?wave)"
    using assms(2,4) by (simp add: np_interp_def col_wavelength_def)
  have e: "map (\<lambda>v. fsqrt (Some v))
             (map (\<lambda>v. ip v (col_wavelength (tab m)) (map (\<lambda>e. e ^ 2) (col_uncertainty (tab m)))) ?wave)
           = flux_err_row ip tab m"
    using assms(2) by (simp add: flux_err_row_def comp_def)
  have r1: "set_row (map (flux_row ip tab) [0..<m] @ drop m a) (length ?wave) m (flux_row ip tab m)
              = Inr (map (flux_row ip tab) [0..<m] @ flux_row ip tab m # drop (Suc m) a)"
    using assms(3,5) by (subst set_row_ok) (simp_all add: update_at_boundary)
  have r2: "set_row (map (flux_err_row ip tab) [0..<m] @ drop m b) (length ?wave) m (flux_err_row ip tab m)
              = Inr (map (flux_err_row ip tab) [0..<m] @ flux_err_row ip tab m # drop (Suc m) b)"
    using assms(3,6) by (subst set_row_ok) (simp_all add: update_at_boundary)
  have fo: "fits_open fs (dither_path filt m) = Inr (tab m)"
    using assms(1) by (simp add: fits_open_def)
  have nz: "(m = 0) = False" using assms(2) by simp
  have up: "[0..<Suc m] = [0..<m] @ [m]" by simp
  show ?thesis
    unfolding load_step_def fo bind_err.simps nz if_False option.case Let_def prod.case
      i1 r1 i2 e r2 up
    by simp
qed

lemma load_loop_prefix:
  assumes "\<forall>d<ndither. fs (dither_path filt d) = Some (tab d)"
    and "\<forall>d. 0 < d \<and> d < ndither \<longrightarrow> tab d \<noteq> []"
    and "0 < m" "m \<le> ndither"
  shows "load_loop ip fs filt ndither [0..<m] None =
     Inr (Some (col_wavelength (tab 0),
                map (flux_row ip tab) [0..<m] @ drop m (replicate ndither (replicate (length (tab 0)) 0)),
                map (flux_err_row ip tab) [0..<m] @ drop m (replicate ndither (replicate (length (tab 0)) (Some 0)))))"
  using assms(3,4)
proof (induction m)
  case 0
  then show ?case by simp
next
  case (Suc m)
  show ?case
  proof (cases "m = 0")
    case True
    have "fs (dither_path filt 0) = Some (tab 0)" using assms(1) Suc.prems by simp
    from load_step_first [of fs filt tab ndither ip None] this Suc.prems True
    show ?thesis by simp
  next
    case False
    then have m: "0 < m" "m < ndither" "m \<le> ndither" using Suc.prems by simp_all
    have f: "fs (dither_path filt m) = Some (tab m)" using assms(1) m by simp
    have t: "tab m \<noteq> []" using assms(2) m by simp
    have up: "[0..<Suc m] = [0..<m] @ [m]" by simp
    show ?thesis
      unfolding up load_loop_append Suc.IH [OF m(1) m(3)] bind_err.simps
      using load_step_next [of fs filt m tab ndither
          "replicate ndither (replicate (length (tab 0)) 0)"
          "replicate ndither (replicate (length (tab 0)) (Some 0))" ip] f m t
      by simp
  qed
qed

lemma load_dithers_value:
  assumes "0 < ndither" and "\<forall>d<ndither. fs (dither_path filt d) = Some (tab d)"
    and "\<forall>d. 0 < d \<and> d < ndither \<longrightarrow> tab d \<noteq> []"
  shows "load_dithers ip fs filt ndither =
           Inr (col_wavelength (tab 0), map (flux_row ip tab) [0..<ndither],
                map (flux_err_row ip tab) [0..<ndither])"
  unfolding load_dithers_def load_loop_prefix [OF assms(2,3) assms(1) order_refl]
  by simp

text \<open>
  Claim C5. The wavelength grid of dither 0 is the reference grid. When the file of every
  dither exists and the tables of the dithers after the first are not empty, the loop
  returns; \<^verbatim>\<open>wave\<close> is the wavelength column of dither 0, whose flux and uncertainty
  are taken as they are; and for every dither \<open>d > 0\<close> the row \<^verbatim>\<open>flux[d, :]\<close> is
  \<^verbatim>\<open>np.interp\<close> of the flux of dither \<open>d\<close> at \<^verbatim>\<open>wave\<close>, and the row
  \<^verbatim>\<open>flux_err[d, :]\<close> is the square root of \<^verbatim>\<open>np.interp\<close> of the squared uncertainties
  of dither \<open>d\<close> at \<^verbatim>\<open>wave\<close>. These rows are the input of the weighted average.
\<close>

theorem dithers_resampled_on_reference_grid:
  assumes "0 < ndither" and "\<forall>d<ndither. fs (dither_path filt d) = Some (tab d)"
    and "\<forall>d. 0 < d \<and> d < ndither \<longrightarrow> tab d \<noteq> []"
  shows "\<exists>flux flux_err.
           load_dithers ip fs filt ndither = Inr (col_wavelength (tab 0), flux, flux_err)
         \<and> has_shape flux ndither (length (tab 0)) \<and> has_shape flux_err ndither (length (tab 0))
         \<and> flux ! 0 = col_flux (tab 0) \<and> flux_err ! 0 = map Some (col_uncertainty (tab 0))
         \<and> (\<forall>d. 0 < d \<and> d < ndither \<longrightarrow>
               flux ! d = map (\<lambda>v. ip v (col_wavelength (tab d)) (col_flux (tab d)))
                              (col_wavelength (tab 0))
             \<and> flux_err ! d =
                 map (\<lambda>v. fsqrt (Some (ip v (col_wavelength (tab d))
                                          (map (\<lambda>e. e ^ 2) (col_uncertainty (tab d))))))
                     (col_wavelength (tab 0)))"
proof (intro exI conjI allI impI)
  show "load_dithers ip fs filt ndither =
          Inr (col_wavelength (tab 0), map (flux_row ip tab) [0..<ndither],
               map (flux_err_row ip tab) [0..<ndither])"
    using assms by (rule load_dithers_value)
  show "has_shape (map (flux_row ip tab) [0..<ndither]) ndither (length (tab 0))"
    by (simp add: has_shape_def list_all_iff)
  show "has_shape (map (flux_err_row ip tab) [0..<ndither]) ndither (length (tab 0))"
    by (simp add: has_shape_def list_all_iff)
  show "map (flux_row ip tab) [0..<ndither] ! 0 = col_flux (tab 0)"
    using assms(1) by (simp add: flux_row_def)
  show "map (flux_err_row ip tab) [0..<ndither] ! 0 = map Some (col_uncertainty (tab 0))"
    using assms(1) by (simp add: flux_err_row_def)
next
  fix d assume d: "0 < d \<and> d < ndither"
  then show "map (flux_row ip tab) [0..<ndither] ! d =
               map (\<lambda>v. ip v (col_wavelength (tab d)) (col_flux (tab d))) (col_wavelength (tab 0))"
    by (simp add: flux_row_def)
  from d show "map (flux_err_row ip tab) [0..<ndither] ! d =
                 map (\<lambda>v. fsqrt (Some (ip v (col_wavelength (tab d))
                                          (map (\<lambda>e. e ^ 2) (col_uncertainty (tab d))))))
                     (col_wavelength (tab 0))"
    by (simp add: flux_err_row_def)
qed

theorem dithers_resampled_on_reference_grid_witness:
  "(0 :: nat) < 2
   \<and> (\<lambda>p. if p = dither_path ''f200w'' 0 then Some [(1, 10, 1), (2, 20, 1), (3, 30, 1)]
           else if p = dither_path ''f200w'' 1 then Some [(1, 11, 2), (3, 31, 2)] else None)
         (dither_path ''f200w'' 0) = Some [(1, 10, 1), (2, 20, 1), (3, 30, 1 :: real)]
   \<and> (\<lambda>p. if p = dither_path ''f200w'' 0 then Some [(1, 10, 1), (2, 20, 1), (3, 30, 1)]
           else if p = dither_path ''f200w'' 1 then Some [(1, 11, 2), (3, 31, 2)] else None)
         (dither_path ''f200w'' 1) = Some [(1, 11, 2), (3, 31, 2 :: real)]
   \<and> [(1, 11, 2), (3, 31, 2 :: real)] \<noteq> []
   \<and> (\<exists>flux flux_err.
         load_dithers lin_interp
           (\<lambda>p. if p = dither_path ''f200w'' 0 then Some [(1, 10, 1), (2, 20, 1), (3, 30, 1)]
                 else if p = dither_path ''f200w'' 1 then Some [(1, 11, 2), (3, 31, 2)] else None)
           ''f200w'' 2 = Inr ([1, 2, 3], flux, flux_err)
         \<and> flux ! 0 = [10, 20, 30] \<and> flux_err ! 0 = [Some 1, Some 1, Some 1]
         \<and> flux ! 1 = [11, 21, 31] \<and> flux_err ! 1 = [Some 2, Some 2, Some 2])"
proof -
  let ?t0 = "[(1, 10, 1), (2, 20, 1), (3, 30, 1)] :: fits_table"
  let ?t1 = "[(1, 11, 2), (3, 31, 2)] :: fits_table"
  let ?fs = "\<lambda>p. if p = dither_path ''f200w'' 0 then Some ?t0
                 else if p = dither_path ''f200w'' 1 then Some ?t1 else None"
  let ?tab = "\<lambda>d :: nat. if d = 0 then ?t0 else ?t1"
  have ne: "dither_path ''f200w'' 1 \<noteq> dither_path ''f200w'' 0"
    by (simp add: dither_path_def str_nat_examples)
  have h2: "\<forall>d<2. ?fs (dither_path ''f200w'' d) = Some (?tab d)"
    using ne by (simp add: less_2_cases_iff)
  have h3: "\<forall>d. 0 < d \<and> d < 2 \<longrightarrow> ?tab d \<noteq> []"
    by simp
  from dithers_resampled_on_reference_grid [of 2 ?fs "''f200w''" ?tab lin_interp, OF _ h2 h3]
  obtain flux flux_err where r:
    "load_dithers lin_interp ?fs ''f200w'' 2 = Inr (col_wavelength ?t0, flux, flux_err)"
    "flux ! 0 = col_flux ?t0" "flux_err ! 0 = map Some (col_uncertainty ?t0)"
    "flux ! 1 = map (\<lambda>v. lin_interp v (col_wavelength ?t1) (col_flux ?t1)) (col_wavelength ?t0)"
    "flux_err ! 1 = map (\<lambda>v. fsqrt (Some (lin_interp v (col_wavelength ?t1)
                                          (map (\<lambda>e. e ^ 2) (col_uncertainty ?t1)))))
                     (col_wavelength ?t0)"
    by auto
  have "load_dithers lin_interp ?fs ''f200w'' 2 = Inr ([1, 2, 3], flux, flux_err)
         \<and> flux ! 0 = [10, 20, 30] \<and> flux_err ! 0 = [Some 1, Some 1, Some 1]
         \<and> flux ! 1 = [11, 21, 31] \<and> flux_err ! 1 = [Some 2, Some 2, Some 2]"
    using r by (simp add: col_wavelength_def col_flux_def col_uncertainty_def)
  then show ?thesis using ne by auto
qed

subsection \<open>The written spectra\<close>

lemma bind_err_Inr: "bind_err m f = Inr y \<longleftrightarrow> (\<exists>x. m = Inr x \<and> f x = Inr y)"
  by (cases m) simp_all





lemma write_normalized_Inr:
  assumes "write_normalized wave flux_combine flux_err_combine Cnorm file_1d = Inr call"
  shows "\<exists>nflux nerr. np_broadcast2 fmul flux_combine Cnorm = Inr nflux
           \<and> np_broadcast2 fmul flux_err_combine Cnorm = Inr nerr
           \<and> call = Write (Spectrum wave nflux (StdDevUncertainty nerr)) file_1d ''tabular-fits'' True"
  using assms by (auto simp: write_normalized_def bind_err_Inr)



lemma first_pass_writes_normalized_spectrum:
  assumes "first_pass ip S fs ffs fd_cat ndither = Inr call"
  shows "\<exists>wave flux_combine flux_err_combine Cnorm nflux nerr.
             products ip S fs ffs fd_cat ndither ''f200w'' 311 1.75 2.25 ''./''
               = Inr (wave, flux_combine, flux_err_combine, Cnorm)
           \<and> np_broadcast2 fmul flux_combine Cnorm = Inr nflux
           \<and> np_broadcast2 fmul flux_err_combine Cnorm = Inr nerr
           \<and> call = Write (Spectrum wave nflux (StdDevUncertainty nerr))
                        (dither_path ''f200w'' (ndither - 1)) ''tabular-fits'' True"
proof -
  from assms obtain wave flux_combine flux_err_combine Cnorm where
    p: "products ip S fs ffs fd_cat ndither ''f200w'' 311 1.75 2.25 ''./''
          = Inr (wave, flux_combine, flux_err_combine, Cnorm)"
    and w: "write_normalized wave flux_combine flux_err_combine Cnorm
              (dither_path ''f200w'' (ndither - 1)) = Inr call"
    by (auto simp: first_pass_def bind_err_Inr)
  from write_normalized_Inr [OF w] p show ?thesis by blast
qed












subsection \<open>The tables of contents\<close>

text \<open>
  Claim C6. Both table-of-contents files consist of a list of parts in which every part
  carries a caption string, and every chapter entry under every part is a (file, title)
  pair: it has a \<^verbatim>\<open>file\<close> field and a \<^verbatim>\<open>title\<close> field, and no other.
\<close>

theorem tocs_are_captioned_parts_of_file_title_pairs:
  "is_toc toc_yml \<and> is_toc toc_yml_2"
  by (simp add: is_toc_def toc_yml_def toc_yml_2_def)


end
